theory Spec2Isabelle
  imports Main
begin

section \<open>JavaScript values\<close>

text \<open>
  The values that travel between \<^verbatim>\<open>global-functions.js\<close> and the service worker are
  JSON-like trees. Numbers are the integers, together with \<open>NaN\<close>, which the \<^verbatim>\<open>+\<close>
  operator produces from \<^verbatim>\<open>undefined\<close>. An object is the list of its own enumerable
  properties in enumeration order, with distinct keys; no value is a function.

  A JavaScript number is a double. \<open>JNum n\<close> stands for the double of value \<open>n\<close>, and
  the integer arithmetic and the decimal printing below are those of the double as
  long as the operands and the results are safe integers, that is of magnitude at most
  \<open>2\<^sup>5\<^sup>3 - 1\<close>. Beyond that bound doubles round and print differently, so every
  statement below about an arithmetic result or about printed digits is made for safe
  integers only.
\<close>

datatype jsval =
    JUndefined
  | JNull
  | JBool bool
  | JNum int
  | JNaN
  | JStr string
  | JArr "jsval list"
  | JObj "(string \<times> jsval) list"

definition MAX_SAFE_INTEGER :: int where
  "MAX_SAFE_INTEGER = 2 ^ 53 - 1"

definition isSafeInteger :: "int \<Rightarrow> bool" where
  "isSafeInteger n \<longleftrightarrow> - MAX_SAFE_INTEGER \<le> n \<and> n \<le> MAX_SAFE_INTEGER"

text \<open>
  What a \<^verbatim>\<open>catch\<close> clause can receive here: the value a promise was rejected with, the
  \<^verbatim>\<open>TypeError\<close> raised by reading a property of \<^verbatim>\<open>undefined\<close> or \<^verbatim>\<open>null\<close> or by
  converting an object that has no usable \<^verbatim>\<open>toString\<close> to a string, or the \<^verbatim>\<open>Error\<close>
  constructor itself, which \<^verbatim>\<open>throw Error\<close> throws.
\<close>

datatype caught = Value jsval | TypeErrorInstance | ErrorFunction

subsection \<open>Number to string\<close>

definition digit_char :: "nat \<Rightarrow> char" where
  "digit_char d = ''0123456789'' ! d"

fun string_of_nat :: "nat \<Rightarrow> string" where
  "string_of_nat n =
     (if n < 10 then [digit_char n]
      else string_of_nat (n div 10) @ [digit_char (n mod 10)])"

declare string_of_nat.simps [simp del]

definition number_to_string :: "int \<Rightarrow> string" where
  "number_to_string i =
     (if i < 0 then CHR ''-'' # string_of_nat (nat (- i)) else string_of_nat (nat i))"

section \<open>Time formatting\<close>

text \<open>
  \<^verbatim>\<open>convertTimeToText(timeUsage, abbrActive = false)\<close>, lines 350 to 374. The
  second argument is the documented boolean and is optional: \<open>None\<close> is the omitted
  argument, which takes the default \<^verbatim>\<open>false\<close>. On integers \<^verbatim>\<open>Math.floor(x)\<close> is \<open>x\<close>
  and \<^verbatim>\<open>Math.floor(a / b)\<close> with \<open>b > 0\<close> is \<open>a div b\<close>, which rounds towards minus
  infinity as \<^verbatim>\<open>Math.floor\<close> does. The result is \<open>None\<close> where the function falls off
  its last \<^verbatim>\<open>else if\<close> and returns \<^verbatim>\<open>undefined\<close>.
\<close>

definition math_floor :: "int \<Rightarrow> int" where
  "math_floor x = x"

definition math_floor_div :: "int \<Rightarrow> int \<Rightarrow> int" where
  "math_floor_div a b = a div b"

definition convertTimeToText :: "int \<Rightarrow> bool option \<Rightarrow> string option" where
  "convertTimeToText timeUsage abbrActiveArg =
     (let abbrActive = (case abbrActiveArg of None \<Rightarrow> False | Some b \<Rightarrow> b) in
      if timeUsage < 60 then
        Some (number_to_string timeUsage @ '' seconds'')
      else if timeUsage \<ge> 60 then
        (let min = math_floor_div timeUsage 60;
             sec = math_floor (timeUsage - min * 60) in
         if timeUsage < 3600 then
           (let timeText =
                  (if abbrActive
                   then number_to_string min @ '' '' @ (if min = 1 then ''Min'' else ''Mins'')
                          @ '' '' @ number_to_string sec @ '' Sec''
                   else number_to_string min @ '' '' @ (if min = 1 then ''Minute'' else ''Minutes'')
                          @ '' '' @ number_to_string sec @ '' Seconds'')
            in Some timeText)
         else if timeUsage \<ge> 3600 then
           (let hours = math_floor_div timeUsage 3600;
                remainingMinutes = math_floor_div (timeUsage - hours * 3600) 60 in
            Some (number_to_string hours @ '' Hr'' @ (if hours \<noteq> 1 then ''s'' else '''')
                    @ '' '' @ number_to_string remainingMinutes @ '' ''
                    @ (if remainingMinutes = 1 then ''Min'' else ''Mins''))
           )
         else None)
      else None)"

text \<open>
  The piecewise definition of the specification (section 4.3), written from its words:
  below a minute, between a minute and an hour (long and abbreviated unit names),
  and from an hour on.
\<close>

definition unit_name :: "string \<Rightarrow> int \<Rightarrow> string" where
  "unit_name u c = (if c = 1 then u else u @ ''s'')"

definition formatDuration :: "int \<Rightarrow> bool \<Rightarrow> string" where
  "formatDuration n abbr =
     (if n < 60 then number_to_string n @ '' seconds''
      else if n < 3600 then
        (let m = n div 60; s = n - m * 60 in
         if abbr then number_to_string m @ '' '' @ unit_name ''Min'' m @ '' ''
                        @ number_to_string s @ '' Sec''
         else number_to_string m @ '' '' @ unit_name ''Minute'' m @ '' ''
                @ number_to_string s @ '' Seconds'')
      else
        (let h = n div 3600; m = (n - h * 3600) div 60 in
         number_to_string h @ '' '' @ unit_name ''Hr'' h @ '' ''
           @ number_to_string m @ '' '' @ unit_name ''Min'' m))"

section \<open>The JavaScript operations the file relies on\<close>

text \<open>Truthiness, as tested by \<^verbatim>\<open>if\<close>, \<^verbatim>\<open>!\<close> and \<^verbatim>\<open>? :\<close>.\<close>

fun truthy :: "jsval \<Rightarrow> bool" where
  "truthy JUndefined = False"
| "truthy JNull = False"
| "truthy (JBool b) = b"
| "truthy (JNum n) = (n \<noteq> 0)"
| "truthy JNaN = False"
| "truthy (JStr s) = (s \<noteq> [])"
| "truthy (JArr xs) = True"
| "truthy (JObj kvs) = True"

fun join :: "string \<Rightarrow> string list \<Rightarrow> string" where
  "join sep [] = []"
| "join sep [x] = x"
| "join sep (x # y # ys) = x @ sep @ join sep (y # ys)"

text \<open>
  \<^verbatim>\<open>ToString\<close>, used by template literals: an array joins its elements with commas,
  \<^verbatim>\<open>undefined\<close> and \<^verbatim>\<open>null\<close> elements as the empty string. An object is converted
  through its \<^verbatim>\<open>toString\<close> and \<^verbatim>\<open>valueOf\<close> methods. Without an own \<^verbatim>\<open>toString\<close> property
  the inherited method answers \<^verbatim>\<open>[object Object]\<close>. An own \<^verbatim>\<open>toString\<close> property is not
  callable (no value here is a function) and hides the inherited method; \<^verbatim>\<open>valueOf\<close>,
  own or inherited, yields no primitive either, and the conversion throws a
  \<^verbatim>\<open>TypeError\<close> (\<open>Inl\<close>).
\<close>

fun to_string :: "jsval \<Rightarrow> caught + string"
  and elements_to_strings :: "jsval list \<Rightarrow> caught + string list" where
  "to_string JUndefined = Inr ''undefined''"
| "to_string JNull = Inr ''null''"
| "to_string (JBool b) = Inr (if b then ''true'' else ''false'')"
| "to_string (JNum n) = Inr (number_to_string n)"
| "to_string JNaN = Inr ''NaN''"
| "to_string (JStr s) = Inr s"
| "to_string (JArr xs) =
     (case elements_to_strings xs of
        Inl thrown \<Rightarrow> Inl thrown
      | Inr texts \<Rightarrow> Inr (join '','' texts))"
| "to_string (JObj kvs) =
     (if ''toString'' \<in> set (map fst kvs) then Inl TypeErrorInstance
      else Inr ''[object Object]'')"
| "elements_to_strings [] = Inr []"
| "elements_to_strings (x # xs) =
     (case (if x = JUndefined \<or> x = JNull then Inr [] else to_string x) of
        Inl thrown \<Rightarrow> Inl thrown
      | Inr text \<Rightarrow>
          (case elements_to_strings xs of
             Inl thrown \<Rightarrow> Inl thrown
           | Inr texts \<Rightarrow> Inr (text # texts)))"

text \<open>
  The \<^verbatim>\<open>+\<close> operator: both operands become primitives, the left one first (an array
  or an object through its string conversion, which may throw); if one of them is a
  string the result is the concatenation, otherwise the sum of the two numbers, \<open>NaN\<close>
  as soon as one of them is.
\<close>

fun to_primitive :: "jsval \<Rightarrow> caught + jsval" where
  "to_primitive (JArr xs) =
     (case to_string (JArr xs) of Inl thrown \<Rightarrow> Inl thrown | Inr text \<Rightarrow> Inr (JStr text))"
| "to_primitive (JObj kvs) =
     (case to_string (JObj kvs) of Inl thrown \<Rightarrow> Inl thrown | Inr text \<Rightarrow> Inr (JStr text))"
| "to_primitive v = Inr v"

fun is_string :: "jsval \<Rightarrow> bool" where
  "is_string (JStr s) = True"
| "is_string v = False"

fun to_number :: "jsval \<Rightarrow> int option" where
  "to_number JNull = Some 0"
| "to_number (JBool b) = Some (if b then 1 else 0)"
| "to_number (JNum n) = Some n"
| "to_number v = None"

definition js_add :: "jsval \<Rightarrow> jsval \<Rightarrow> caught + jsval" where
  "js_add a b =
     (case to_primitive a of
        Inl thrown \<Rightarrow> Inl thrown
      | Inr lprim \<Rightarrow>
          (case to_primitive b of
             Inl thrown \<Rightarrow> Inl thrown
           | Inr rprim \<Rightarrow>
               if is_string lprim \<or> is_string rprim then
                 (case to_string lprim of
                    Inl thrown \<Rightarrow> Inl thrown
                  | Inr ltext \<Rightarrow>
                      (case to_string rprim of
                         Inl thrown \<Rightarrow> Inl thrown
                       | Inr rtext \<Rightarrow> Inr (JStr (ltext @ rtext))))
               else Inr (case (to_number lprim, to_number rprim) of
                           (Some x, Some y) \<Rightarrow> JNum (x + y)
                         | _ \<Rightarrow> JNaN)))"

text \<open>
  Property reads. A key is an array index or a name that is not an index. Reading a
  property of \<^verbatim>\<open>undefined\<close> or \<^verbatim>\<open>null\<close> throws; a missing property is \<^verbatim>\<open>undefined\<close>.
  Inherited properties are left out: none of the names this file reads
  (\<^verbatim>\<open>error\<close>, \<^verbatim>\<open>message\<close>, \<^verbatim>\<open>total-watch-time\<close>) is one.
\<close>

datatype key = Idx nat | Name string

fun lookup :: "(string \<times> jsval) list \<Rightarrow> string \<Rightarrow> jsval" where
  "lookup [] k = JUndefined"
| "lookup ((k', v) # kvs) k = (if k' = k then v else lookup kvs k)"

fun get_prop :: "jsval \<Rightarrow> key \<Rightarrow> caught + jsval" where
  "get_prop JUndefined k = Inl TypeErrorInstance"
| "get_prop JNull k = Inl TypeErrorInstance"
| "get_prop (JObj kvs) (Name k) = Inr (lookup kvs k)"
| "get_prop (JObj kvs) (Idx i) = Inr (lookup kvs (string_of_nat i))"
| "get_prop (JArr xs) (Idx i) = Inr (if i < length xs then xs ! i else JUndefined)"
| "get_prop (JArr xs) (Name k) =
     Inr (if k = ''length'' then JNum (int (length xs)) else JUndefined)"
| "get_prop (JStr s) (Idx i) = Inr (if i < length s then JStr [s ! i] else JUndefined)"
| "get_prop (JStr s) (Name k) =
     Inr (if k = ''length'' then JNum (int (length s)) else JUndefined)"
| "get_prop v k = Inr JUndefined"

text \<open>
  The keys a \<^verbatim>\<open>for ... in\<close> loop visits: the indices of an array or a string, the
  property names of an object, nothing for any other value (\<^verbatim>\<open>undefined\<close> and
  \<^verbatim>\<open>null\<close> included: the loop body is skipped, nothing is thrown).
\<close>

fun for_in_keys :: "jsval \<Rightarrow> key list" where
  "for_in_keys (JArr xs) = map Idx [0..<length xs]"
| "for_in_keys (JStr s) = map Idx [0..<length s]"
| "for_in_keys (JObj kvs) = map (\<lambda>kv. Name (fst kv)) kvs"
| "for_in_keys v = []"

text \<open>\<^verbatim>\<open>String.prototype.padStart(targetLength, padString)\<close>.\<close>

definition padStart :: "nat \<Rightarrow> string \<Rightarrow> string \<Rightarrow> string" where
  "padStart targetLength padString s =
     (if targetLength \<le> length s \<or> padString = [] then s
      else take (targetLength - length s)
             (concat (replicate (targetLength - length s) padString)) @ s)"

text \<open>
  \<^verbatim>\<open>JSON.stringify\<close> on these values: \<^verbatim>\<open>undefined\<close> has no JSON text (the result is
  \<^verbatim>\<open>undefined\<close>), \<open>NaN\<close> is written \<^verbatim>\<open>null\<close>, an \<^verbatim>\<open>undefined\<close> array element is written
  \<^verbatim>\<open>null\<close>, and a property whose value is \<^verbatim>\<open>undefined\<close> is left out. Strings are quoted,
  with the quote, the backslash and the control characters escaped.
\<close>

definition hex_digit :: "nat \<Rightarrow> char" where
  "hex_digit d = ''0123456789abcdef'' ! d"

definition quote_json_char :: "char \<Rightarrow> string" where
  "quote_json_char c =
     (let n = (of_char c :: nat) in
      if n = 0x22 then [CHR 0x5C, CHR 0x22]
      else if n = 0x5C then [CHR 0x5C, CHR 0x5C]
      else if n = 0x08 then [CHR 0x5C, CHR ''b'']
      else if n = 0x0C then [CHR 0x5C, CHR ''f'']
      else if n = 0x0A then [CHR 0x5C, CHR ''n'']
      else if n = 0x0D then [CHR 0x5C, CHR ''r'']
      else if n = 0x09 then [CHR 0x5C, CHR ''t'']
      else if n < 0x20 then
        [CHR 0x5C, CHR ''u'', CHR ''0'', CHR ''0'', hex_digit (n div 16), hex_digit (n mod 16)]
      else [c])"

definition quote_json_string :: "string \<Rightarrow> string" where
  "quote_json_string s = [CHR 0x22] @ concat (map quote_json_char s) @ [CHR 0x22]"

fun JSON_stringify :: "jsval \<Rightarrow> jsval" where
  "JSON_stringify JUndefined = JUndefined"
| "JSON_stringify JNull = JStr ''null''"
| "JSON_stringify (JBool b) = JStr (if b then ''true'' else ''false'')"
| "JSON_stringify (JNum n) = JStr (number_to_string n)"
| "JSON_stringify JNaN = JStr ''null''"
| "JSON_stringify (JStr s) = JStr (quote_json_string s)"
| "JSON_stringify (JArr xs) =
     JStr (''['' @ join '',''
             (map (\<lambda>x. case JSON_stringify x of JStr t \<Rightarrow> t | _ \<Rightarrow> ''null'') xs) @ '']'')"
| "JSON_stringify (JObj kvs) =
     JStr (''{'' @ join '',''
             (map (\<lambda>kv. quote_json_string (fst kv) @ '':'' @
                         (case JSON_stringify (snd kv) of JStr t \<Rightarrow> t | _ \<Rightarrow> ''null''))
                (filter (\<lambda>kv. snd kv \<noteq> JUndefined) kvs)) @ ''}'')"

section \<open>The console and the message channel\<close>

text \<open>
  The effects of the file are the lines it writes to the console and the messages it
  hands to \<^verbatim>\<open>chrome.runtime.sendMessage\<close>. The extension runtime is a parameter: for
  each message it gives the state in which the callback runs, \<^verbatim>\<open>chrome.runtime.lastError\<close>
  (\<^verbatim>\<open>undefined\<close> when the worker answered) and the response. A worker that never
  answers is outside this model: every call below is one whose callback runs.
\<close>

datatype log_entry = ConsoleLog "caught list" | ConsoleError "caught list"

record world =
  console :: "log_entry list"
  sent :: "jsval list"

record callback =
  lastError :: jsval
  response :: jsval

type_synonym runtime = "jsval \<Rightarrow> callback"

definition console_log :: "caught list \<Rightarrow> world \<Rightarrow> world" where
  "console_log args w = w\<lparr>console := console w @ [ConsoleLog args]\<rparr>"

definition console_error :: "caught list \<Rightarrow> world \<Rightarrow> world" where
  "console_error args w = w\<lparr>console := console w @ [ConsoleError args]\<rparr>"

fun is_error_entry :: "log_entry \<Rightarrow> bool" where
  "is_error_entry (ConsoleError args) = True"
| "is_error_entry (ConsoleLog args) = False"

definition error_logs :: "world \<Rightarrow> log_entry list" where
  "error_logs w = filter is_error_entry (console w)"

text \<open>
  \<^verbatim>\<open>sendMessageToServiceWorker(message)\<close>, lines 72 to 82: the promise is rejected
  with \<^verbatim>\<open>chrome.runtime.lastError\<close> when it is set (\<open>Inl\<close>) and resolved with the
  response otherwise (\<open>Inr\<close>).
\<close>

definition sendMessageToServiceWorker ::
  "runtime \<Rightarrow> jsval \<Rightarrow> world \<Rightarrow> (caught + jsval) \<times> world" where
  "sendMessageToServiceWorker chrome message w =
     (let w' = w\<lparr>sent := sent w @ [message]\<rparr>; cb = chrome message in
      if truthy (lastError cb) then (Inl (Value (lastError cb)), w')
      else (Inr (response cb), w'))"

section \<open>Record access helpers\<close>

text \<open>
  Lines 102 to 326. Each helper is an \<^verbatim>\<open>async\<close> function whose whole body is a
  \<^verbatim>\<open>try\<close>/\<^verbatim>\<open>catch\<close>. Where the handler cannot throw the promise always resolves, and
  the model returns the value it resolves to and the world after the call.
\<close>

definition filterRecordsGlobal ::
  "runtime \<Rightarrow> jsval \<Rightarrow> jsval \<Rightarrow> jsval \<Rightarrow> world \<Rightarrow> jsval \<times> world" where
  "filterRecordsGlobal chrome table property value w =
     (case sendMessageToServiceWorker chrome
             (JObj [(''operation'', JStr ''filterRecords''), (''table'', table),
                    (''property'', property), (''value'', value)]) w of
        (Inr filteredRecords, w') \<Rightarrow> (filteredRecords, w')
      | (Inl error, w') \<Rightarrow> (JBool False, console_error [error] w'))"

definition resetTableGlobal :: "runtime \<Rightarrow> jsval \<Rightarrow> world \<Rightarrow> jsval \<times> world" where
  "resetTableGlobal chrome table w =
     (case sendMessageToServiceWorker chrome
             (JObj [(''operation'', JStr ''resetTable''), (''table'', table)]) w of
        (Inr result, w') \<Rightarrow> (result, w')
      | (Inl error, w') \<Rightarrow> (JBool False, console_error [error] w'))"

definition selectAllRecordsGlobal :: "runtime \<Rightarrow> jsval \<Rightarrow> world \<Rightarrow> jsval \<times> world" where
  "selectAllRecordsGlobal chrome table w =
     (case sendMessageToServiceWorker chrome
             (JObj [(''operation'', JStr ''selectAllRecords''), (''table'', table)]) w of
        (Inr allRecordsInTable, w') \<Rightarrow> (allRecordsInTable, w')
      | (Inl error, w') \<Rightarrow> (JBool False, console_error [error] w'))"

definition selectRecordByIdGlobal ::
  "runtime \<Rightarrow> jsval \<Rightarrow> jsval \<Rightarrow> world \<Rightarrow> jsval \<times> world" where
  "selectRecordByIdGlobal chrome table id' w =
     (case sendMessageToServiceWorker chrome
             (JObj [(''operation'', JStr ''selectRecordById''), (''table'', table),
                    (''index'', id')]) w of
        (Inr recordsWithId, w') \<Rightarrow> (recordsWithId, w')
      | (Inl error, w') \<Rightarrow> (JBool False, console_error [error] w'))"

text \<open>
  \<^verbatim>\<open>updateRecordByPropertyGlobal\<close>, lines 229 to 258. The handler of its \<^verbatim>\<open>catch\<close> is
  bound once; it runs for a rejected promise, for a property read that throws, for
  the \<^verbatim>\<open>throw Error\<close> of the \<^verbatim>\<open>else\<close> branch and for a template literal of the success
  line that throws. The handler itself evaluates the template literal \<^verbatim>\<open>${value}\<close>;
  when that conversion throws, nothing is logged and the promise of the helper is
  rejected with the \<^verbatim>\<open>TypeError\<close>: the first component of the result is \<open>Inl\<close> for a
  rejected promise and \<open>Inr\<close> for the value it resolves to.
\<close>

definition updateRecordByPropertyGlobal ::
  "runtime \<Rightarrow> jsval \<Rightarrow> jsval \<Rightarrow> jsval \<Rightarrow> jsval \<Rightarrow> world \<Rightarrow> (caught + jsval) \<times> world" where
  "updateRecordByPropertyGlobal chrome table property value newRecords w =
     (let catch = (\<lambda>error w'.
            case to_string value of
              Inl thrown \<Rightarrow> (Inl thrown, w')
            | Inr value_text \<Rightarrow>
                (Inr (JBool False),
                 console_error
                   [Value (JStr (''Error updating limitations DB for id: '' @ value_text)),
                    error] w')) in
      case sendMessageToServiceWorker chrome
             (JObj [(''operation'', JStr ''updateRecordByProperty''), (''table'', table),
                    (''property'', property), (''value'', value),
                    (''newRecords'', newRecords)]) w of
        (Inl error, w') \<Rightarrow> catch error w'
      | (Inr sendUpdatedRecords, w') \<Rightarrow>
          (case get_prop sendUpdatedRecords (Name ''error'') of
             Inl error \<Rightarrow> catch error w'
           | Inr flag \<Rightarrow>
               if \<not> truthy flag then
                 (case to_string value of
                    Inl thrown \<Rightarrow> catch thrown w'
                  | Inr value_text \<Rightarrow>
                      (case to_string (JSON_stringify newRecords) of
                         Inl thrown \<Rightarrow> catch thrown w'
                       | Inr records_text \<Rightarrow>
                           (Inr (JBool True),
                            console_log
                              [Value (JStr (''Record updated successfully for table youtube-limitations with property id, ''
                                 @ value_text @ '' with new records '' @ records_text @ ''.''))]
                              w')))
               else catch ErrorFunction w'))"

definition deleteRecordByIdGlobal ::
  "runtime \<Rightarrow> jsval \<Rightarrow> jsval \<Rightarrow> world \<Rightarrow> jsval \<times> world" where
  "deleteRecordByIdGlobal chrome table id' w =
     (let w1 = console_log [Value table] w;
          w2 = console_log [Value id'] w1 in
      case sendMessageToServiceWorker chrome
             (JObj [(''operation'', JStr ''deleteRecordById''), (''table'', table),
                    (''id'', id')]) w2 of
        (Inr result, w') \<Rightarrow> (result, console_log [Value result] w')
      | (Inl error, w') \<Rightarrow> (JBool False, console_error [error] w'))"

definition insertRecordsGlobal ::
  "runtime \<Rightarrow> jsval \<Rightarrow> jsval \<Rightarrow> world \<Rightarrow> jsval \<times> world" where
  "insertRecordsGlobal chrome table newRecords w =
     (case sendMessageToServiceWorker chrome
             (JObj [(''operation'', JStr ''insertRecords''), (''table'', table),
                    (''records'', newRecords)]) w of
        (Inr result, w') \<Rightarrow> (result, w')
      | (Inl error, w') \<Rightarrow> (JBool False, console_error [error] w'))"

section \<open>Watch times and watch mode\<close>

text \<open>
  \<^verbatim>\<open>getCurrentDate()\<close>, lines 416 to 422. \<^verbatim>\<open>new Date()\<close> reads the local clock; the
  model takes the date object it yields, with the three getters the function calls
  (\<^verbatim>\<open>getMonth\<close> counts from 0). \<^verbatim>\<open>String(n)\<close> of a number and \<^verbatim>\<open>${year}\<close> print its
  decimal digits.
\<close>

record date =
  getFullYear :: int
  getMonth :: int
  getDate :: int

definition getCurrentDate :: "date \<Rightarrow> string" where
  "getCurrentDate date =
     (let year = getFullYear date;
          month = padStart 2 ''0'' (number_to_string (getMonth date + 1));
          day = padStart 2 ''0'' (number_to_string (getDate date))
      in number_to_string year @ ''-'' @ month @ ''-'' @ day)"

definition getCurrentWatchTimes :: "date \<Rightarrow> runtime \<Rightarrow> world \<Rightarrow> jsval \<times> world" where
  "getCurrentWatchTimes now chrome w =
     (case sendMessageToServiceWorker chrome
             (JObj [(''operation'', JStr ''filterRecords''), (''table'', JStr ''watch-times''),
                    (''property'', JStr ''date''), (''value'', JStr (getCurrentDate now))]) w of
        (Inr currentWatchTimeObj, w') \<Rightarrow> (currentWatchTimeObj, w')
      | (Inl error, w') \<Rightarrow>
          (JUndefined,
           console_error [Value (JStr ''Error fetching current watch times:''), error] w'))"

text \<open>
  \<^verbatim>\<open>getTotalWatchTime()\<close>, lines 439 to 456. The \<^verbatim>\<open>for ... in\<close> loop is a recursion
  over the keys; a property read or an addition that throws leaves the loop for the
  \<^verbatim>\<open>catch\<close>.
\<close>

fun getTotalWatchTime_loop :: "jsval \<Rightarrow> key list \<Rightarrow> jsval \<Rightarrow> caught + jsval" where
  "getTotalWatchTime_loop totalWatchTimes [] totalTime = Inr totalTime"
| "getTotalWatchTime_loop totalWatchTimes (index # rest) totalTime =
     (case get_prop totalWatchTimes index of
        Inl error \<Rightarrow> Inl error
      | Inr record \<Rightarrow>
          (case get_prop record (Name ''total-watch-time'') of
             Inl error \<Rightarrow> Inl error
           | Inr t \<Rightarrow>
               (case js_add totalTime t of
                  Inl error \<Rightarrow> Inl error
                | Inr totalTime' \<Rightarrow> getTotalWatchTime_loop totalWatchTimes rest totalTime')))"

definition getTotalWatchTime :: "runtime \<Rightarrow> world \<Rightarrow> jsval \<times> world" where
  "getTotalWatchTime chrome w =
     (let totalTime = JNum 0 in
      case sendMessageToServiceWorker chrome
             (JObj [(''operation'', JStr ''selectAllRecords''),
                    (''table'', JStr ''watch-times'')]) w of
        (Inl error, w') \<Rightarrow> (JUndefined, console_error [error] w')
      | (Inr totalWatchTimes, w') \<Rightarrow>
          (case getTotalWatchTime_loop totalWatchTimes (for_in_keys totalWatchTimes) totalTime of
             Inl error \<Rightarrow> (JUndefined, console_error [error] w')
           | Inr totalTime' \<Rightarrow> (totalTime', w')))"

text \<open>\<^verbatim>\<open>getCurrentWatchMode()\<close>, lines 476 to 492.\<close>

definition getCurrentWatchMode :: "runtime \<Rightarrow> world \<Rightarrow> jsval \<times> world" where
  "getCurrentWatchMode chrome w =
     (case sendMessageToServiceWorker chrome
             (JObj [(''operation'', JStr ''filterRecords''), (''table'', JStr ''watch-modes''),
                    (''property'', JStr ''active''), (''value'', JBool True)]) w of
        (Inl error, w') \<Rightarrow> (JBool False, console_error [error] w')
      | (Inr data, w') \<Rightarrow>
          (case get_prop data (Idx 0) of
             Inl error \<Rightarrow> (JBool False, console_error [error] w')
           | Inr currentWatchMode \<Rightarrow> (currentWatchMode, w')))"

section \<open>Navigation redirect\<close>

text \<open>
  \<^verbatim>\<open>redirectUser\<close>, lines 565 to 576, is declared with an empty parameter list; a
  caller may still pass arguments, which the model receives as \<open>args\<close>. The function
  is not \<^verbatim>\<open>async\<close> and has no \<^verbatim>\<open>try\<close>: the first component of the result is the
  exception that escapes the callback, if any.
\<close>

definition redirectUser :: "jsval list \<Rightarrow> runtime \<Rightarrow> world \<Rightarrow> caught option \<times> world" where
  "redirectUser args chrome w =
     (let message = JObj [(''redirect'', JStr ''/html/dashboard.html'')];
          w' = w\<lparr>sent := sent w @ [message]\<rparr>;
          cb = chrome message in
      if truthy (lastError cb) then
        (case get_prop (lastError cb) (Name ''message'') of
           Inl error \<Rightarrow> (Some error, w')
         | Inr m \<Rightarrow> (None, console_error [Value m] w'))
      else (None, console_log [Value (response cb)] w'))"

section \<open>Runtimes for concrete runs\<close>

text \<open>
  A runtime whose worker answers every message with the same response, and one that
  cannot deliver any message and sets \<^verbatim>\<open>chrome.runtime.lastError\<close>.
\<close>

definition answering :: "jsval \<Rightarrow> runtime" where
  "answering reply message = \<lparr>lastError = JUndefined, response = reply\<rparr>"

definition unreachable :: "jsval \<Rightarrow> runtime" where
  "unreachable error message = \<lparr>lastError = error, response = JUndefined\<rparr>"

section \<open>Reference notions of the specification\<close>

text \<open>
  The reply of the worker carries an embedded error flag when its \<^verbatim>\<open>error\<close> property
  is set, that is truthy. \<^verbatim>\<open>undefined\<close> and \<^verbatim>\<open>null\<close> have no properties, hence no flag.
\<close>

definition error_flag_set :: "jsval \<Rightarrow> bool" where
  "error_flag_set reply =
     (case get_prop reply (Name ''error'') of Inr flag \<Rightarrow> truthy flag | Inl e \<Rightarrow> False)"

text \<open>The numeric \<^verbatim>\<open>total-watch-time\<close> field of a watch-time record.\<close>

definition total_watch_time :: "jsval \<Rightarrow> int" where
  "total_watch_time r =
     (case get_prop r (Name ''total-watch-time'') of Inr (JNum t) \<Rightarrow> t | _ \<Rightarrow> 0)"

text \<open>
  The ISO form \<^verbatim>\<open>yyyy-MM-dd\<close> of a calendar date, digit by digit: four digits of the
  year, two of the month (counted from 1) and two of the day.
\<close>

definition two_digits :: "int \<Rightarrow> string" where
  "two_digits k = [digit_char (nat (k div 10)), digit_char (nat (k mod 10))]"

definition four_digits :: "int \<Rightarrow> string" where
  "four_digits k =
     [digit_char (nat (k div 1000)), digit_char (nat (k div 100 mod 10)),
      digit_char (nat (k div 10 mod 10)), digit_char (nat (k mod 10))]"

definition yyyy_MM_dd :: "int \<Rightarrow> int \<Rightarrow> int \<Rightarrow> string" where
  "yyyy_MM_dd year month day = four_digits year @ ''-'' @ two_digits month @ ''-'' @ two_digits day"

text \<open>
  The fields of a request that the file documents for \<^verbatim>\<open>sendMessageToServiceWorker\<close>
  (lines 34 to 41), and the keys of a message.
\<close>

definition documented_fields :: "string list" where
  "documented_fields =
     [''operation'', ''table'', ''index'', ''property'', ''value'', ''records'', ''newRecords'']"

fun message_keys :: "jsval \<Rightarrow> string list" where
  "message_keys (JObj kvs) = map fst kvs"
| "message_keys v = []"

section \<open>Properties of the time formatting\<close>

lemma digit_char_not_minus: "d < 10 \<Longrightarrow> digit_char d \<noteq> CHR ''-''"
proof -
  assume "d < 10"
  then have "d \<in> {0, 1, 2, 3, 4, 5, 6, 7, 8, 9}" by auto
  then show ?thesis by (auto simp: digit_char_def)
qed

lemma string_of_nat_no_minus: "CHR ''-'' \<notin> set (string_of_nat n)"
proof (induction n rule: string_of_nat.induct)
  case (1 n)
  show ?case
  proof (cases "n < 10")
    case True
    then show ?thesis
      using digit_char_not_minus [of n] by (simp add: string_of_nat.simps [of n])
  next
    case False
    have "n mod 10 < 10" by simp
    then have "digit_char (n mod 10) \<noteq> CHR ''-''" by (rule digit_char_not_minus)
    with False 1 show ?thesis
      by (auto simp: string_of_nat.simps [of n])
  qed
qed

lemma number_to_string_no_minus: "0 \<le> i \<Longrightarrow> CHR ''-'' \<notin> set (number_to_string i)"
  by (simp add: number_to_string_def string_of_nat_no_minus)

lemma formatDuration_no_minus:
  "0 \<le> n \<Longrightarrow> CHR ''-'' \<notin> set (formatDuration n abbr)"
proof -
  assume n: "0 \<le> n"
  have a: "0 \<le> n div 60" "0 \<le> n - n div 60 * 60" "0 \<le> n div 3600"
    "0 \<le> (n - n div 3600 * 3600) div 60"
    using n by (simp_all add: pos_imp_zdiv_nonneg_iff minus_div_mult_eq_mod)
  show ?thesis
    using n a
    by (simp add: formatDuration_def Let_def unit_name_def number_to_string_no_minus)
qed

lemma convertTimeToText_formatDuration:
  "0 \<le> n \<Longrightarrow>
     convertTimeToText n abbrArg =
       Some (formatDuration n (case abbrArg of None \<Rightarrow> False | Some b \<Rightarrow> b))"
  by (simp add: convertTimeToText_def formatDuration_def math_floor_def math_floor_div_def
      unit_name_def Let_def)

text \<open>
  C1. For every safe integer \<open>n \<ge> 0\<close> and either value of the abbreviation flag (given
  or omitted), \<^verbatim>\<open>convertTimeToText\<close> returns the string of the piecewise reference
  definition \<^const>\<open>formatDuration\<close>: \<open>n seconds\<close> below 60; minutes and seconds below
  3600, long or abbreviated, the minute unit singular exactly for one minute; hours
  and minutes from 3600 on, each unit singular exactly for a count of one, the
  leftover seconds dropped. The seven examples of the specification hold.
\<close>

theorem convertTimeToText_piecewise:
  "(0 \<le> n \<and> n \<le> MAX_SAFE_INTEGER \<longrightarrow>
      convertTimeToText n (Some abbr) = Some (formatDuration n abbr) \<and>
      convertTimeToText n None = Some (formatDuration n False)) \<and>
   convertTimeToText 0 None = Some ''0 seconds'' \<and>
   convertTimeToText 60 None = Some ''1 Minute 0 Seconds'' \<and>
   convertTimeToText 60 (Some True) = Some ''1 Min 0 Sec'' \<and>
   convertTimeToText 125 None = Some ''2 Minutes 5 Seconds'' \<and>
   convertTimeToText 3600 None = Some ''1 Hr 0 Mins'' \<and>
   convertTimeToText 5400 None = Some ''1 Hr 30 Mins'' \<and>
   convertTimeToText 7260 None = Some ''2 Hrs 1 Min''"
proof -
  have general: "0 \<le> n \<and> n \<le> MAX_SAFE_INTEGER \<longrightarrow>
      convertTimeToText n (Some abbr) = Some (formatDuration n abbr) \<and>
      convertTimeToText n None = Some (formatDuration n False)"
    by (simp add: convertTimeToText_formatDuration)
  have examples:
    "convertTimeToText 0 None = Some ''0 seconds''"
    "convertTimeToText 60 None = Some ''1 Minute 0 Seconds''"
    "convertTimeToText 60 (Some True) = Some ''1 Min 0 Sec''"
    "convertTimeToText 125 None = Some ''2 Minutes 5 Seconds''"
    "convertTimeToText 3600 None = Some ''1 Hr 0 Mins''"
    "convertTimeToText 5400 None = Some ''1 Hr 30 Mins''"
    "convertTimeToText 7260 None = Some ''2 Hrs 1 Min''"
    by (simp_all add: convertTimeToText_def math_floor_def math_floor_div_def number_to_string_def
        string_of_nat.simps digit_char_def)
  from general examples show ?thesis by blast
qed

theorem convertTimeToText_piecewise_witness:
  "(0::int) \<le> 59 \<and> (59::int) \<le> MAX_SAFE_INTEGER \<and>
   convertTimeToText 59 None = Some ''59 seconds'' \<and>
   (0::int) \<le> 3725 \<and> (3725::int) \<le> MAX_SAFE_INTEGER \<and>
   convertTimeToText 3725 (Some True) = Some ''1 Hr 2 Mins'' \<and>
   (0::int) \<le> 61 \<and> (61::int) \<le> MAX_SAFE_INTEGER \<and>
   convertTimeToText 61 (Some True) = Some ''1 Min 1 Sec'' \<and>
   (0::int) \<le> 9007199254740991 \<and> (9007199254740991::int) \<le> MAX_SAFE_INTEGER \<and>
   convertTimeToText 9007199254740991 None = Some ''2501999792983 Hrs 36 Mins''"
proof -
  have bounds: "(59::int) \<le> MAX_SAFE_INTEGER" "(3725::int) \<le> MAX_SAFE_INTEGER"
    "(61::int) \<le> MAX_SAFE_INTEGER" "(9007199254740991::int) \<le> MAX_SAFE_INTEGER"
    by (simp_all add: MAX_SAFE_INTEGER_def)
  show ?thesis
    using convertTimeToText_piecewise [of 59 True] convertTimeToText_piecewise [of 3725 True]
      convertTimeToText_piecewise [of 61 True]
      convertTimeToText_piecewise [of 9007199254740991 False] bounds
    by (simp add: formatDuration_def unit_name_def number_to_string_def
        string_of_nat.simps digit_char_def)
qed

text \<open>
  C7, as stated, fails: a negative number is below 60, so the first branch of
  \<^verbatim>\<open>convertTimeToText\<close> matches and a string is returned, not \<^verbatim>\<open>undefined\<close>.
\<close>

theorem convertTimeToText_negative_counterexample:
  "convertTimeToText (- 5) None = Some ''-5 seconds'' \<and> convertTimeToText (- 5) None \<noteq> None"
  by (simp add: convertTimeToText_def number_to_string_def string_of_nat.simps digit_char_def)

text \<open>
  C7, amended. For every negative safe integer \<open>n\<close>, \<^verbatim>\<open>convertTimeToText\<close> takes its
  first branch and returns the minus sign, the decimal digits of \<open>- n\<close> and \<open>seconds\<close>.
\<close>

theorem convertTimeToText_negative:
  "n < 0 \<and> - MAX_SAFE_INTEGER \<le> n \<Longrightarrow>
     convertTimeToText n abbr = Some (CHR ''-'' # string_of_nat (nat (- n)) @ '' seconds'')"
  by (simp add: convertTimeToText_def number_to_string_def)

theorem convertTimeToText_negative_witness:
  "(- 90 :: int) < 0 \<and> - MAX_SAFE_INTEGER \<le> - 90 \<and>
   convertTimeToText (- 90) (Some True) = Some ''-90 seconds''"
proof -
  have b: "(- 90 :: int) < 0 \<and> - MAX_SAFE_INTEGER \<le> - 90"
    by (simp add: MAX_SAFE_INTEGER_def)
  from convertTimeToText_negative [OF b, of "Some True"] b show ?thesis
    by (simp add: string_of_nat.simps digit_char_def)
qed

lemma minutes_branch_bounds:
  "60 \<le> n \<Longrightarrow>
     0 < math_floor_div n 60 \<and>
     0 \<le> math_floor (n - math_floor_div n 60 * 60) \<and>
        math_floor (n - math_floor_div n 60 * 60) < 60"
proof -
  assume h: "60 \<le> n"
  have r: "n - n div 60 * 60 = n mod 60" by (simp add: minus_div_mult_eq_mod)
  have "0 < n div 60" using h by (simp add: pos_imp_zdiv_pos_iff)
  then show ?thesis unfolding math_floor_def math_floor_div_def r by simp
qed

lemma hours_branch_bounds:
  "3600 \<le> n \<Longrightarrow>
     0 < math_floor_div n 3600 \<and>
     0 \<le> math_floor_div (n - math_floor_div n 3600 * 3600) 60 \<and>
     math_floor_div (n - math_floor_div n 3600 * 3600) 60 < 60"
proof -
  assume h: "3600 \<le> n"
  have r: "n - n div 3600 * 3600 = n mod 3600" by (simp add: minus_div_mult_eq_mod)
  have b: "0 \<le> n mod 3600" "n mod 3600 < 60 * 60" by simp_all
  have lo: "0 \<le> (n mod 3600) div 60" using b(1) by (simp add: pos_imp_zdiv_nonneg_iff)
  have "n mod 3600 \<le> 3599" using b(2) by linarith
  then have "(n mod 3600) div 60 \<le> 3599 div 60" by (rule zdiv_mono1) simp
  then have hi: "(n mod 3600) div 60 < 60" by simp
  have "0 < n div 3600" using h by (simp add: pos_imp_zdiv_pos_iff)
  with lo hi show ?thesis unfolding math_floor_def math_floor_div_def r by simp
qed

text \<open>
  C8. For every safe integer \<open>n \<ge> 0\<close> the string returned by \<^verbatim>\<open>convertTimeToText\<close> has
  no minus sign. Between a minute and an hour the numbers it prints are the minute
  count, which is positive, and the seconds remainder, which lies in \<open>0..59\<close>; from an
  hour on they are the hour count, which is positive, and the minutes remainder,
  which lies in \<open>0..59\<close>.
\<close>

theorem convertTimeToText_magnitudes:
  "0 \<le> n \<and> n \<le> MAX_SAFE_INTEGER \<Longrightarrow>
     (\<exists>s. convertTimeToText n abbr = Some s \<and> CHR ''-'' \<notin> set s) \<and>
     (n < 60 \<longrightarrow> convertTimeToText n abbr = Some (number_to_string n @ '' seconds'')) \<and>
     (60 \<le> n \<and> n < 3600 \<longrightarrow>
        0 < math_floor_div n 60 \<and>
        0 \<le> math_floor (n - math_floor_div n 60 * 60) \<and>
        math_floor (n - math_floor_div n 60 * 60) < 60 \<and>
        convertTimeToText n abbr =
          Some (number_to_string (math_floor_div n 60) @ '' '' @
                (if abbr = Some True
                 then (if math_floor_div n 60 = 1 then ''Min'' else ''Mins'')
                 else (if math_floor_div n 60 = 1 then ''Minute'' else ''Minutes'')) @ '' '' @
                number_to_string (math_floor (n - math_floor_div n 60 * 60)) @
                (if abbr = Some True then '' Sec'' else '' Seconds''))) \<and>
     (3600 \<le> n \<longrightarrow>
        0 < math_floor_div n 3600 \<and>
        0 \<le> math_floor_div (n - math_floor_div n 3600 * 3600) 60 \<and>
        math_floor_div (n - math_floor_div n 3600 * 3600) 60 < 60 \<and>
        convertTimeToText n abbr =
          Some (number_to_string (math_floor_div n 3600) @
                (if math_floor_div n 3600 = 1 then '' Hr '' else '' Hrs '') @
                number_to_string (math_floor_div (n - math_floor_div n 3600 * 3600) 60) @
                (if math_floor_div (n - math_floor_div n 3600 * 3600) 60 = 1
                 then '' Min'' else '' Mins'')))"
proof -
  assume "0 \<le> n \<and> n \<le> MAX_SAFE_INTEGER"
  then have n: "0 \<le> n" by simp
  have str: "\<exists>s. convertTimeToText n abbr = Some s \<and> CHR ''-'' \<notin> set s"
    using convertTimeToText_formatDuration [OF n, of abbr] formatDuration_no_minus [OF n]
    by simp
  have secs: "n < 60 \<longrightarrow> convertTimeToText n abbr = Some (number_to_string n @ '' seconds'')"
    by (simp add: convertTimeToText_def)
  have abbr_cases: "abbr = None \<or> abbr = Some False \<or> abbr = Some True"
    by (cases abbr) auto
  have mins_text: "60 \<le> n \<and> n < 3600 \<longrightarrow>
        convertTimeToText n abbr =
          Some (number_to_string (math_floor_div n 60) @ '' '' @
                (if abbr = Some True
                 then (if math_floor_div n 60 = 1 then ''Min'' else ''Mins'')
                 else (if math_floor_div n 60 = 1 then ''Minute'' else ''Minutes'')) @ '' '' @
                number_to_string (math_floor (n - math_floor_div n 60 * 60)) @
                (if abbr = Some True then '' Sec'' else '' Seconds''))"
    using abbr_cases by (auto simp: convertTimeToText_def Let_def)
  have hrs_text: "3600 \<le> n \<longrightarrow>
        convertTimeToText n abbr =
          Some (number_to_string (math_floor_div n 3600) @
                (if math_floor_div n 3600 = 1 then '' Hr '' else '' Hrs '') @
                number_to_string (math_floor_div (n - math_floor_div n 3600 * 3600) 60) @
                (if math_floor_div (n - math_floor_div n 3600 * 3600) 60 = 1
                 then '' Min'' else '' Mins''))"
    by (simp add: convertTimeToText_def Let_def)
  have mins: "60 \<le> n \<and> n < 3600 \<longrightarrow>
        0 < math_floor_div n 60 \<and>
        0 \<le> math_floor (n - math_floor_div n 60 * 60) \<and>
        math_floor (n - math_floor_div n 60 * 60) < 60"
    using minutes_branch_bounds [of n] by blast
  have hrs: "3600 \<le> n \<longrightarrow>
        0 < math_floor_div n 3600 \<and>
        0 \<le> math_floor_div (n - math_floor_div n 3600 * 3600) 60 \<and>
        math_floor_div (n - math_floor_div n 3600 * 3600) 60 < 60"
    using hours_branch_bounds [of n] by blast
  from str secs mins mins_text hrs hrs_text show ?thesis by blast
qed

theorem convertTimeToText_magnitudes_witness:
  "(0::int) \<le> 7199 \<and> (7199::int) \<le> MAX_SAFE_INTEGER \<and>
   convertTimeToText 7199 None = Some ''1 Hr 59 Mins'' \<and>
   math_floor_div (7199 - math_floor_div 7199 3600 * 3600) 60 = 59 \<and>
   (0::int) \<le> 3599 \<and> (3599::int) \<le> MAX_SAFE_INTEGER \<and>
   convertTimeToText 3599 (Some True) = Some ''59 Mins 59 Sec'' \<and>
   math_floor (3599 - math_floor_div 3599 60 * 60) = 59"
proof -
  have b: "(0::int) \<le> 7199 \<and> (7199::int) \<le> MAX_SAFE_INTEGER"
    "(0::int) \<le> 3599 \<and> (3599::int) \<le> MAX_SAFE_INTEGER"
    by (simp_all add: MAX_SAFE_INTEGER_def)
  from convertTimeToText_magnitudes [OF b(1), of None]
    convertTimeToText_magnitudes [OF b(2), of "Some True"] b
  show ?thesis
    by (simp add: math_floor_def math_floor_div_def number_to_string_def
        string_of_nat.simps digit_char_def)
qed

section \<open>Properties of the record access helpers\<close>

lemma error_logs_console_error [simp]:
  "error_logs (console_error args w) = error_logs w @ [ConsoleError args]"
  by (simp add: error_logs_def console_error_def)

lemma error_logs_console_log [simp]:
  "error_logs (console_log args w) = error_logs w"
  by (simp add: error_logs_def console_log_def)

lemma error_logs_sent [simp]: "error_logs (w\<lparr>sent := ms\<rparr>) = error_logs w"
  by (simp add: error_logs_def)

lemma sent_console_error [simp]: "sent (console_error args w) = sent w"
  by (simp add: console_error_def)

lemma sent_console_log [simp]: "sent (console_log args w) = sent w"
  by (simp add: console_log_def)

lemma bridge_eq:
  "sendMessageToServiceWorker chrome m w =
     (if truthy (lastError (chrome m)) then Inl (Value (lastError (chrome m)))
      else Inr (response (chrome m)),
      w\<lparr>sent := sent w @ [m]\<rparr>)"
  by (simp add: sendMessageToServiceWorker_def Let_def)

lemma bridge_rejects_iff:
  "isl (fst (sendMessageToServiceWorker chrome m w)) \<longleftrightarrow> truthy (lastError (chrome m))"
  by (simp add: bridge_eq)

lemma bridge_resolves_iff:
  "fst (sendMessageToServiceWorker chrome m w) = Inr payload \<longleftrightarrow>
     \<not> truthy (lastError (chrome m)) \<and> response (chrome m) = payload"
  by (simp add: bridge_eq)



lemma answering_resolves:
  "fst (sendMessageToServiceWorker (answering reply) m w) = Inr reply"
  by (simp add: bridge_eq answering_def)

lemma unreachable_rejects:
  "truthy e \<Longrightarrow> fst (sendMessageToServiceWorker (unreachable e) m w) = Inl (Value e)"
  by (simp add: bridge_eq unreachable_def)

lemma error_logs_empty: "error_logs \<lparr>console = [], sent = []\<rparr> = []"
  by (simp add: error_logs_def)

lemma to_string_JSON_stringify: "\<exists>text. to_string (JSON_stringify v) = Inr text"
  by (cases v) simp_all

lemma updateRecordByPropertyGlobal_sent:
  "sent (snd (updateRecordByPropertyGlobal chrome table property value' newRecords w)) =
     sent w @ [JObj [(''operation'', JStr ''updateRecordByProperty''), (''table'', table),
                     (''property'', property), (''value'', value'),
                     (''newRecords'', newRecords)]]"
  by (simp add: updateRecordByPropertyGlobal_def bridge_eq Let_def split: sum.splits)

lemma updateRecordByPropertyGlobal_cases:
  assumes "to_string value' = Inr value_text"
  shows "updateRecordByPropertyGlobal chrome table property value' newRecords w =
     (let m = JObj [(''operation'', JStr ''updateRecordByProperty''), (''table'', table),
                    (''property'', property), (''value'', value'),
                    (''newRecords'', newRecords)];
          w' = w\<lparr>sent := sent w @ [m]\<rparr>;
          failed = (\<lambda>error. (Inr (JBool False),
             console_error
               [Value (JStr (''Error updating limitations DB for id: '' @ value_text)),
                error] w')) in
      if truthy (lastError (chrome m)) then failed (Value (lastError (chrome m)))
      else (case get_prop (response (chrome m)) (Name ''error'') of
              Inl error \<Rightarrow> failed error
            | Inr flag \<Rightarrow>
                if truthy flag then failed ErrorFunction
                else (Inr (JBool True),
                  console_log
                    [Value (JStr (''Record updated successfully for table youtube-limitations with property id, ''
                       @ value_text @ '' with new records ''
                       @ projr (to_string (JSON_stringify newRecords)) @ ''.''))] w')))"
proof -
  obtain records_text where "to_string (JSON_stringify newRecords) = Inr records_text"
    using to_string_JSON_stringify by blast
  with assms show ?thesis
    by (simp add: updateRecordByPropertyGlobal_def bridge_eq Let_def split: sum.splits)
qed

lemma updateRecordByPropertyGlobal_unprintable:
  assumes "to_string value' = Inl thrown"
  shows "updateRecordByPropertyGlobal chrome table property value' newRecords w =
     (let m = JObj [(''operation'', JStr ''updateRecordByProperty''), (''table'', table),
                    (''property'', property), (''value'', value'),
                    (''newRecords'', newRecords)] in
      (Inl thrown, w\<lparr>sent := sent w @ [m]\<rparr>))"
  using assms
  by (simp add: updateRecordByPropertyGlobal_def bridge_eq Let_def split: sum.splits)

text \<open>
  C2, as stated, fails for \<^verbatim>\<open>updateRecordByPropertyGlobal\<close> and a value that cannot be
  converted to a string, such as \<^verbatim>\<open>{toString: 5}\<close>: when the bridge rejects, the handler
  of the \<^verbatim>\<open>catch\<close> throws on \<^verbatim>\<open>${value}\<close>, so the promise of the helper is rejected and no
  error line is written.
\<close>

theorem updateRecordByPropertyGlobal_unprintable_value_counterexample:
  "isl (fst (sendMessageToServiceWorker
       (unreachable (JObj [(''message'', JStr ''Could not establish connection.'')]))
       (JObj [(''operation'', JStr ''updateRecordByProperty''),
              (''table'', JStr ''youtube-limitations''), (''property'', JStr ''id''),
              (''value'', JObj [(''toString'', JNum 5)]),
              (''newRecords'', JObj [(''active'', JBool True)])])
       \<lparr>console = [], sent = []\<rparr>)) \<and>
   fst (updateRecordByPropertyGlobal
          (unreachable (JObj [(''message'', JStr ''Could not establish connection.'')]))
          (JStr ''youtube-limitations'') (JStr ''id'') (JObj [(''toString'', JNum 5)])
          (JObj [(''active'', JBool True)]) \<lparr>console = [], sent = []\<rparr>)
     = Inl TypeErrorInstance \<and>
   fst (updateRecordByPropertyGlobal
          (unreachable (JObj [(''message'', JStr ''Could not establish connection.'')]))
          (JStr ''youtube-limitations'') (JStr ''id'') (JObj [(''toString'', JNum 5)])
          (JObj [(''active'', JBool True)]) \<lparr>console = [], sent = []\<rparr>)
     \<noteq> Inr (JBool False) \<and>
   error_logs (snd (updateRecordByPropertyGlobal
          (unreachable (JObj [(''message'', JStr ''Could not establish connection.'')]))
          (JStr ''youtube-limitations'') (JStr ''id'') (JObj [(''toString'', JNum 5)])
          (JObj [(''active'', JBool True)]) \<lparr>console = [], sent = []\<rparr>)) = []"
  by (simp add: updateRecordByPropertyGlobal_unprintable unreachable_rejects error_logs_def)

text \<open>
  C2, amended. Whenever the call of the messaging bridge rejects, each of the seven
  record access helpers resolves to \<^verbatim>\<open>false\<close> and writes exactly one more error line to
  the console, \<^verbatim>\<open>updateRecordByPropertyGlobal\<close> for every value whose conversion to a
  string does not throw (every string, number and boolean among them); when the
  bridge resolves with a payload, each helper other than
  \<^verbatim>\<open>updateRecordByPropertyGlobal\<close> resolves to that payload, unchanged.
\<close>

theorem record_access_helpers_contract:
  "(isl (fst (sendMessageToServiceWorker chrome
       (JObj [(''operation'', JStr ''filterRecords''), (''table'', table),
              (''property'', property), (''value'', value')]) w)) \<longrightarrow>
      fst (filterRecordsGlobal chrome table property value' w) = JBool False \<and>
      length (error_logs (snd (filterRecordsGlobal chrome table property value' w)))
        = length (error_logs w) + 1) \<and>
   (isl (fst (sendMessageToServiceWorker chrome
       (JObj [(''operation'', JStr ''resetTable''), (''table'', table)]) w)) \<longrightarrow>
      fst (resetTableGlobal chrome table w) = JBool False \<and>
      length (error_logs (snd (resetTableGlobal chrome table w))) = length (error_logs w) + 1) \<and>
   (isl (fst (sendMessageToServiceWorker chrome
       (JObj [(''operation'', JStr ''selectAllRecords''), (''table'', table)]) w)) \<longrightarrow>
      fst (selectAllRecordsGlobal chrome table w) = JBool False \<and>
      length (error_logs (snd (selectAllRecordsGlobal chrome table w)))
        = length (error_logs w) + 1) \<and>
   (isl (fst (sendMessageToServiceWorker chrome
       (JObj [(''operation'', JStr ''selectRecordById''), (''table'', table),
              (''index'', id')]) w)) \<longrightarrow>
      fst (selectRecordByIdGlobal chrome table id' w) = JBool False \<and>
      length (error_logs (snd (selectRecordByIdGlobal chrome table id' w)))
        = length (error_logs w) + 1) \<and>
   (isl (fst (sendMessageToServiceWorker chrome
       (JObj [(''operation'', JStr ''updateRecordByProperty''), (''table'', table),
              (''property'', property), (''value'', value'), (''newRecords'', newRecords)]) w)) \<and>
    \<not> isl (to_string value') \<longrightarrow>
      fst (updateRecordByPropertyGlobal chrome table property value' newRecords w)
        = Inr (JBool False) \<and>
      length (error_logs (snd (updateRecordByPropertyGlobal chrome table property
                                 value' newRecords w)))
        = length (error_logs w) + 1) \<and>
   (isl (fst (sendMessageToServiceWorker chrome
       (JObj [(''operation'', JStr ''deleteRecordById''), (''table'', table),
              (''id'', id')]) w)) \<longrightarrow>
      fst (deleteRecordByIdGlobal chrome table id' w) = JBool False \<and>
      length (error_logs (snd (deleteRecordByIdGlobal chrome table id' w)))
        = length (error_logs w) + 1) \<and>
   (isl (fst (sendMessageToServiceWorker chrome
       (JObj [(''operation'', JStr ''insertRecords''), (''table'', table),
              (''records'', newRecords)]) w)) \<longrightarrow>
      fst (insertRecordsGlobal chrome table newRecords w) = JBool False \<and>
      length (error_logs (snd (insertRecordsGlobal chrome table newRecords w)))
        = length (error_logs w) + 1) \<and>
   (fst (sendMessageToServiceWorker chrome
       (JObj [(''operation'', JStr ''filterRecords''), (''table'', table),
              (''property'', property), (''value'', value')]) w) = Inr payload \<longrightarrow>
      fst (filterRecordsGlobal chrome table property value' w) = payload) \<and>
   (fst (sendMessageToServiceWorker chrome
       (JObj [(''operation'', JStr ''resetTable''), (''table'', table)]) w) = Inr payload \<longrightarrow>
      fst (resetTableGlobal chrome table w) = payload) \<and>
   (fst (sendMessageToServiceWorker chrome
       (JObj [(''operation'', JStr ''selectAllRecords''), (''table'', table)]) w) = Inr payload \<longrightarrow>
      fst (selectAllRecordsGlobal chrome table w) = payload) \<and>
   (fst (sendMessageToServiceWorker chrome
       (JObj [(''operation'', JStr ''selectRecordById''), (''table'', table),
              (''index'', id')]) w) = Inr payload \<longrightarrow>
      fst (selectRecordByIdGlobal chrome table id' w) = payload) \<and>
   (fst (sendMessageToServiceWorker chrome
       (JObj [(''operation'', JStr ''deleteRecordById''), (''table'', table),
              (''id'', id')]) w) = Inr payload \<longrightarrow>
      fst (deleteRecordByIdGlobal chrome table id' w) = payload) \<and>
   (fst (sendMessageToServiceWorker chrome
       (JObj [(''operation'', JStr ''insertRecords''), (''table'', table),
              (''records'', newRecords)]) w) = Inr payload \<longrightarrow>
      fst (insertRecordsGlobal chrome table newRecords w) = payload)"
proof -
  have update: "truthy (lastError (chrome
       (JObj [(''operation'', JStr ''updateRecordByProperty''), (''table'', table),
              (''property'', property), (''value'', value'), (''newRecords'', newRecords)]))) \<and>
    \<not> isl (to_string value') \<longrightarrow>
      fst (updateRecordByPropertyGlobal chrome table property value' newRecords w)
        = Inr (JBool False) \<and>
      length (error_logs (snd (updateRecordByPropertyGlobal chrome table property
                                 value' newRecords w)))
        = length (error_logs w) + 1"
  proof (cases "to_string value'")
    case (Inl thrown)
    then show ?thesis by simp
  next
    case (Inr value_text)
    then show ?thesis by (simp add: updateRecordByPropertyGlobal_cases Let_def)
  qed
  show ?thesis
    unfolding bridge_rejects_iff bridge_resolves_iff
    apply (intro conjI)
    apply (simp_all add: filterRecordsGlobal_def resetTableGlobal_def selectAllRecordsGlobal_def
        selectRecordByIdGlobal_def deleteRecordByIdGlobal_def
        insertRecordsGlobal_def bridge_eq Let_def update)
    done
qed

theorem record_access_helpers_contract_witness:
  "isl (fst (sendMessageToServiceWorker
       (unreachable (JObj [(''message'', JStr ''Could not establish connection.'')]))
       (JObj [(''operation'', JStr ''filterRecords''), (''table'', JStr ''watch-times''),
              (''property'', JStr ''id''), (''value'', JNum 1)]) \<lparr>console = [], sent = []\<rparr>)) \<and>
   fst (filterRecordsGlobal (unreachable (JObj [(''message'', JStr ''Could not establish connection.'')]))
          (JStr ''watch-times'') (JStr ''id'') (JNum 1) \<lparr>console = [], sent = []\<rparr>) = JBool False \<and>
   length (error_logs (snd (filterRecordsGlobal (unreachable (JObj [(''message'', JStr ''Could not establish connection.'')]))
          (JStr ''watch-times'') (JStr ''id'') (JNum 1) \<lparr>console = [], sent = []\<rparr>))) = 1 \<and>
   isl (fst (sendMessageToServiceWorker
       (unreachable (JObj [(''message'', JStr ''Could not establish connection.'')]))
       (JObj [(''operation'', JStr ''resetTable''), (''table'', JStr ''watch-times'')]) \<lparr>console = [], sent = []\<rparr>)) \<and>
   fst (resetTableGlobal (unreachable (JObj [(''message'', JStr ''Could not establish connection.'')]))
          (JStr ''watch-times'') \<lparr>console = [], sent = []\<rparr>) = JBool False \<and>
   length (error_logs (snd (resetTableGlobal (unreachable (JObj [(''message'', JStr ''Could not establish connection.'')]))
          (JStr ''watch-times'') \<lparr>console = [], sent = []\<rparr>))) = 1 \<and>
   isl (fst (sendMessageToServiceWorker
       (unreachable (JObj [(''message'', JStr ''Could not establish connection.'')]))
       (JObj [(''operation'', JStr ''selectAllRecords''), (''table'', JStr ''watch-times'')]) \<lparr>console = [], sent = []\<rparr>)) \<and>
   fst (selectAllRecordsGlobal (unreachable (JObj [(''message'', JStr ''Could not establish connection.'')]))
          (JStr ''watch-times'') \<lparr>console = [], sent = []\<rparr>) = JBool False \<and>
   length (error_logs (snd (selectAllRecordsGlobal (unreachable (JObj [(''message'', JStr ''Could not establish connection.'')]))
          (JStr ''watch-times'') \<lparr>console = [], sent = []\<rparr>))) = 1 \<and>
   isl (fst (sendMessageToServiceWorker
       (unreachable (JObj [(''message'', JStr ''Could not establish connection.'')]))
       (JObj [(''operation'', JStr ''selectRecordById''), (''table'', JStr ''watch-times''),
              (''index'', JNum 1)]) \<lparr>console = [], sent = []\<rparr>)) \<and>
   fst (selectRecordByIdGlobal (unreachable (JObj [(''message'', JStr ''Could not establish connection.'')]))
          (JStr ''watch-times'') (JNum 1) \<lparr>console = [], sent = []\<rparr>) = JBool False \<and>
   length (error_logs (snd (selectRecordByIdGlobal (unreachable (JObj [(''message'', JStr ''Could not establish connection.'')]))
          (JStr ''watch-times'') (JNum 1) \<lparr>console = [], sent = []\<rparr>))) = 1 \<and>
   isl (fst (sendMessageToServiceWorker
       (unreachable (JObj [(''message'', JStr ''Could not establish connection.'')]))
       (JObj [(''operation'', JStr ''updateRecordByProperty''), (''table'', JStr ''watch-times''),
              (''property'', JStr ''id''), (''value'', JNum 1),
              (''newRecords'', JObj [(''active'', JBool True)])]) \<lparr>console = [], sent = []\<rparr>)) \<and>
   \<not> isl (to_string (JNum 1)) \<and>
   fst (updateRecordByPropertyGlobal (unreachable (JObj [(''message'', JStr ''Could not establish connection.'')]))
          (JStr ''watch-times'') (JStr ''id'') (JNum 1) (JObj [(''active'', JBool True)]) \<lparr>console = [], sent = []\<rparr>) = Inr (JBool False) \<and>
   length (error_logs (snd (updateRecordByPropertyGlobal (unreachable (JObj [(''message'', JStr ''Could not establish connection.'')]))
          (JStr ''watch-times'') (JStr ''id'') (JNum 1) (JObj [(''active'', JBool True)]) \<lparr>console = [], sent = []\<rparr>))) = 1 \<and>
   isl (fst (sendMessageToServiceWorker
       (unreachable (JObj [(''message'', JStr ''Could not establish connection.'')]))
       (JObj [(''operation'', JStr ''deleteRecordById''), (''table'', JStr ''watch-times''),
              (''id'', JNum 1)]) \<lparr>console = [], sent = []\<rparr>)) \<and>
   fst (deleteRecordByIdGlobal (unreachable (JObj [(''message'', JStr ''Could not establish connection.'')]))
          (JStr ''watch-times'') (JNum 1) \<lparr>console = [], sent = []\<rparr>) = JBool False \<and>
   length (error_logs (snd (deleteRecordByIdGlobal (unreachable (JObj [(''message'', JStr ''Could not establish connection.'')]))
          (JStr ''watch-times'') (JNum 1) \<lparr>console = [], sent = []\<rparr>))) = 1 \<and>
   isl (fst (sendMessageToServiceWorker
       (unreachable (JObj [(''message'', JStr ''Could not establish connection.'')]))
       (JObj [(''operation'', JStr ''insertRecords''), (''table'', JStr ''watch-times''),
              (''records'', JObj [(''active'', JBool True)])]) \<lparr>console = [], sent = []\<rparr>)) \<and>
   fst (insertRecordsGlobal (unreachable (JObj [(''message'', JStr ''Could not establish connection.'')]))
          (JStr ''watch-times'') (JObj [(''active'', JBool True)]) \<lparr>console = [], sent = []\<rparr>) = JBool False \<and>
   length (error_logs (snd (insertRecordsGlobal (unreachable (JObj [(''message'', JStr ''Could not establish connection.'')]))
          (JStr ''watch-times'') (JObj [(''active'', JBool True)]) \<lparr>console = [], sent = []\<rparr>))) = 1 \<and>
   fst (sendMessageToServiceWorker
       (answering (JArr [JObj [(''id'', JNum 1)]]))
       (JObj [(''operation'', JStr ''filterRecords''), (''table'', JStr ''watch-times''),
              (''property'', JStr ''id''), (''value'', JNum 1)]) \<lparr>console = [], sent = []\<rparr>) = Inr (JArr [JObj [(''id'', JNum 1)]]) \<and>
   fst (filterRecordsGlobal (answering (JArr [JObj [(''id'', JNum 1)]]))
          (JStr ''watch-times'') (JStr ''id'') (JNum 1) \<lparr>console = [], sent = []\<rparr>) = JArr [JObj [(''id'', JNum 1)]] \<and>
   fst (sendMessageToServiceWorker
       (answering (JArr [JObj [(''id'', JNum 1)]]))
       (JObj [(''operation'', JStr ''resetTable''), (''table'', JStr ''watch-times'')]) \<lparr>console = [], sent = []\<rparr>) = Inr (JArr [JObj [(''id'', JNum 1)]]) \<and>
   fst (resetTableGlobal (answering (JArr [JObj [(''id'', JNum 1)]]))
          (JStr ''watch-times'') \<lparr>console = [], sent = []\<rparr>) = JArr [JObj [(''id'', JNum 1)]] \<and>
   fst (sendMessageToServiceWorker
       (answering (JArr [JObj [(''id'', JNum 1)]]))
       (JObj [(''operation'', JStr ''selectAllRecords''), (''table'', JStr ''watch-times'')]) \<lparr>console = [], sent = []\<rparr>) = Inr (JArr [JObj [(''id'', JNum 1)]]) \<and>
   fst (selectAllRecordsGlobal (answering (JArr [JObj [(''id'', JNum 1)]]))
          (JStr ''watch-times'') \<lparr>console = [], sent = []\<rparr>) = JArr [JObj [(''id'', JNum 1)]] \<and>
   fst (sendMessageToServiceWorker
       (answering (JArr [JObj [(''id'', JNum 1)]]))
       (JObj [(''operation'', JStr ''selectRecordById''), (''table'', JStr ''watch-times''),
              (''index'', JNum 1)]) \<lparr>console = [], sent = []\<rparr>) = Inr (JArr [JObj [(''id'', JNum 1)]]) \<and>
   fst (selectRecordByIdGlobal (answering (JArr [JObj [(''id'', JNum 1)]]))
          (JStr ''watch-times'') (JNum 1) \<lparr>console = [], sent = []\<rparr>) = JArr [JObj [(''id'', JNum 1)]] \<and>
   fst (sendMessageToServiceWorker
       (answering (JArr [JObj [(''id'', JNum 1)]]))
       (JObj [(''operation'', JStr ''deleteRecordById''), (''table'', JStr ''watch-times''),
              (''id'', JNum 1)]) \<lparr>console = [], sent = []\<rparr>) = Inr (JArr [JObj [(''id'', JNum 1)]]) \<and>
   fst (deleteRecordByIdGlobal (answering (JArr [JObj [(''id'', JNum 1)]]))
          (JStr ''watch-times'') (JNum 1) \<lparr>console = [], sent = []\<rparr>) = JArr [JObj [(''id'', JNum 1)]] \<and>
   fst (sendMessageToServiceWorker
       (answering (JArr [JObj [(''id'', JNum 1)]]))
       (JObj [(''operation'', JStr ''insertRecords''), (''table'', JStr ''watch-times''),
              (''records'', JObj [(''active'', JBool True)])]) \<lparr>console = [], sent = []\<rparr>) = Inr (JArr [JObj [(''id'', JNum 1)]]) \<and>
   fst (insertRecordsGlobal (answering (JArr [JObj [(''id'', JNum 1)]]))
          (JStr ''watch-times'') (JObj [(''active'', JBool True)]) \<lparr>console = [], sent = []\<rparr>) = JArr [JObj [(''id'', JNum 1)]]"
proof -
  have rej: "\<And>m. isl (fst (sendMessageToServiceWorker
       (unreachable (JObj [(''message'', JStr ''Could not establish connection.'')])) m \<lparr>console = [], sent = []\<rparr>))"
    by (simp add: unreachable_rejects)
  note down_case = record_access_helpers_contract [where w = "\<lparr>console = [], sent = []\<rparr>"
      and chrome = "unreachable (JObj [(''message'', JStr ''Could not establish connection.'')])"
      and table = "JStr ''watch-times''" and property = "JStr ''id''" and value' = "JNum 1" and id' = "JNum 1"
      and newRecords = "JObj [(''active'', JBool True)]"]
  note up_case = record_access_helpers_contract [where w = "\<lparr>console = [], sent = []\<rparr>"
      and chrome = "answering (JArr [JObj [(''id'', JNum 1)]])"
      and table = "JStr ''watch-times''" and property = "JStr ''id''" and value' = "JNum 1" and id' = "JNum 1"
      and newRecords = "JObj [(''active'', JBool True)]" and payload = "JArr [JObj [(''id'', JNum 1)]]"]
  have printable: "\<not> isl (to_string (JNum 1))" by simp
  show ?thesis
    using down_case up_case unfolding error_logs_empty
    by (simp only: rej printable answering_resolves simp_thms list.size)
qed

lemma no_flag_iff:
  "reply \<noteq> JUndefined \<and> reply \<noteq> JNull \<and> \<not> error_flag_set reply \<longleftrightarrow>
     (\<exists>flag. get_prop reply (Name ''error'') = Inr flag \<and> \<not> truthy flag)"
  by (cases reply) (simp_all add: error_flag_set_def)

lemma flag_set_iff:
  "error_flag_set reply \<longleftrightarrow> (\<exists>flag. get_prop reply (Name ''error'') = Inr flag \<and> truthy flag)"
  by (cases reply) (simp_all add: error_flag_set_def)

text \<open>
  C3, as stated, fails: a reply that resolves to \<^verbatim>\<open>undefined\<close> carries no error flag,
  yet reading its \<^verbatim>\<open>error\<close> property throws, the \<^verbatim>\<open>catch\<close> runs and the helper
  resolves to \<^verbatim>\<open>false\<close>.
\<close>

theorem updateRecordByPropertyGlobal_undefined_reply_counterexample:
  "fst (sendMessageToServiceWorker (answering JUndefined)
         (JObj [(''operation'', JStr ''updateRecordByProperty''),
                (''table'', JStr ''youtube-limitations''), (''property'', JStr ''id''),
                (''value'', JNum 1), (''newRecords'', JObj [(''active'', JBool True)])])
         \<lparr>console = [], sent = []\<rparr>) = Inr JUndefined \<and>
   \<not> error_flag_set JUndefined \<and>
   fst (updateRecordByPropertyGlobal
          (answering JUndefined)
          (JStr ''youtube-limitations'') (JStr ''id'') (JNum 1) (JObj [(''active'', JBool True)])
          \<lparr>console = [], sent = []\<rparr>) = Inr (JBool False)"
  by (simp add: updateRecordByPropertyGlobal_cases [where value_text = "number_to_string 1"]
      bridge_eq error_flag_set_def answering_def)

text \<open>
  C3, amended. For a value whose conversion to a string does not throw (every
  string, number and boolean among them), \<^verbatim>\<open>updateRecordByPropertyGlobal\<close> resolves to
  \<^verbatim>\<open>true\<close> exactly when the reply resolves to a value other than \<^verbatim>\<open>undefined\<close> and
  \<^verbatim>\<open>null\<close> that carries no embedded error flag. In every other case it resolves to
  \<^verbatim>\<open>false\<close> after exactly one more error line, so it never hands the payload on; when
  the flag of the reply is set, the value caught and logged is the thrown \<^verbatim>\<open>Error\<close>.
\<close>

theorem updateRecordByPropertyGlobal_result:
  "\<not> isl (to_string value') \<Longrightarrow>
   (fst (updateRecordByPropertyGlobal chrome table property value' newRecords w)
      = Inr (JBool True) \<longleftrightarrow>
    (\<exists>reply. fst (sendMessageToServiceWorker chrome
                 (JObj [(''operation'', JStr ''updateRecordByProperty''), (''table'', table),
                        (''property'', property), (''value'', value'),
                        (''newRecords'', newRecords)]) w) = Inr reply \<and>
             reply \<noteq> JUndefined \<and> reply \<noteq> JNull \<and> \<not> error_flag_set reply)) \<and>
   (fst (updateRecordByPropertyGlobal chrome table property value' newRecords w)
      \<noteq> Inr (JBool True) \<longrightarrow>
    fst (updateRecordByPropertyGlobal chrome table property value' newRecords w)
      = Inr (JBool False) \<and>
    length (error_logs (snd (updateRecordByPropertyGlobal chrome table property
                               value' newRecords w))) = length (error_logs w) + 1) \<and>
   (fst (sendMessageToServiceWorker chrome
           (JObj [(''operation'', JStr ''updateRecordByProperty''), (''table'', table),
                  (''property'', property), (''value'', value'),
                  (''newRecords'', newRecords)]) w) = Inr reply \<and> error_flag_set reply \<longrightarrow>
    fst (updateRecordByPropertyGlobal chrome table property value' newRecords w)
      = Inr (JBool False) \<and>
    (\<exists>line. console (snd (updateRecordByPropertyGlobal chrome table property value'
                             newRecords w)) =
              console w @ [ConsoleError [Value (JStr line), ErrorFunction]])) \<and>
   (isl (fst (sendMessageToServiceWorker chrome
           (JObj [(''operation'', JStr ''updateRecordByProperty''), (''table'', table),
                  (''property'', property), (''value'', value'),
                  (''newRecords'', newRecords)]) w)) \<longrightarrow>
    fst (updateRecordByPropertyGlobal chrome table property value' newRecords w)
      = Inr (JBool False))"
proof -
  assume "\<not> isl (to_string value')"
  then obtain value_text where vt: "to_string value' = Inr value_text"
    by (cases "to_string value'") simp_all
  note cases = updateRecordByPropertyGlobal_cases [OF vt]
  let ?m = "JObj [(''operation'', JStr ''updateRecordByProperty''), (''table'', table),
                  (''property'', property), (''value'', value'), (''newRecords'', newRecords)]"
  let ?u = "updateRecordByPropertyGlobal chrome table property value' newRecords w"
  have a: "fst ?u = Inr (JBool True) \<longleftrightarrow>
    (\<exists>reply. fst (sendMessageToServiceWorker chrome ?m w) = Inr reply \<and>
             reply \<noteq> JUndefined \<and> reply \<noteq> JNull \<and> \<not> error_flag_set reply)"
    unfolding no_flag_iff bridge_resolves_iff
    by (simp add: cases Let_def split: sum.splits)
  have b: "fst ?u \<noteq> Inr (JBool True) \<longrightarrow>
      fst ?u = Inr (JBool False) \<and> length (error_logs (snd ?u)) = length (error_logs w) + 1"
    by (simp add: cases Let_def split: sum.splits)
  have c: "fst (sendMessageToServiceWorker chrome ?m w) = Inr reply \<and> error_flag_set reply \<longrightarrow>
      fst ?u = Inr (JBool False) \<and>
      (\<exists>line. console (snd ?u) = console w @ [ConsoleError [Value (JStr line), ErrorFunction]])"
    unfolding flag_set_iff bridge_resolves_iff
    by (auto simp: cases Let_def console_error_def)
  have d: "isl (fst (sendMessageToServiceWorker chrome ?m w)) \<longrightarrow> fst ?u = Inr (JBool False)"
    unfolding bridge_rejects_iff by (simp add: cases Let_def)
  from a b c d show ?thesis by blast
qed

theorem updateRecordByPropertyGlobal_result_witness:
  "\<not> isl (to_string (JNum 1)) \<and>
   fst (updateRecordByPropertyGlobal
          (answering (JObj [(''error'', JBool False)]))
          (JStr ''youtube-limitations'') (JStr ''id'') (JNum 1) (JObj [(''active'', JBool True)])
          \<lparr>console = [], sent = []\<rparr>) = Inr (JBool True) \<and>
   fst (sendMessageToServiceWorker
          (answering (JObj [(''error'', JStr ''quota'')]))
          (JObj [(''operation'', JStr ''updateRecordByProperty''),
                 (''table'', JStr ''youtube-limitations''), (''property'', JStr ''id''),
                 (''value'', JNum 1), (''newRecords'', JObj [(''active'', JBool True)])])
          \<lparr>console = [], sent = []\<rparr>) = Inr (JObj [(''error'', JStr ''quota'')]) \<and>
   error_flag_set (JObj [(''error'', JStr ''quota'')]) \<and>
   fst (updateRecordByPropertyGlobal
          (answering (JObj [(''error'', JStr ''quota'')]))
          (JStr ''youtube-limitations'') (JStr ''id'') (JNum 1) (JObj [(''active'', JBool True)])
          \<lparr>console = [], sent = []\<rparr>) = Inr (JBool False) \<and>
   length (error_logs (snd (updateRecordByPropertyGlobal
          (answering (JObj [(''error'', JStr ''quota'')]))
          (JStr ''youtube-limitations'') (JStr ''id'') (JNum 1) (JObj [(''active'', JBool True)])
          \<lparr>console = [], sent = []\<rparr>))) = 1 \<and>
   isl (fst (sendMessageToServiceWorker
          (unreachable (JObj [(''message'', JStr ''Could not establish connection.'')]))
          (JObj [(''operation'', JStr ''updateRecordByProperty''),
                 (''table'', JStr ''youtube-limitations''), (''property'', JStr ''id''),
                 (''value'', JNum 1), (''newRecords'', JObj [(''active'', JBool True)])])
          \<lparr>console = [], sent = []\<rparr>)) \<and>
   fst (updateRecordByPropertyGlobal
          (unreachable (JObj [(''message'', JStr ''Could not establish connection.'')]))
          (JStr ''youtube-limitations'') (JStr ''id'') (JNum 1) (JObj [(''active'', JBool True)])
          \<lparr>console = [], sent = []\<rparr>) = Inr (JBool False)"
proof -
  have printable: "\<not> isl (to_string (JNum 1))" by simp
  have ok: "\<exists>reply. fst (sendMessageToServiceWorker
          (answering (JObj [(''error'', JBool False)]))
          (JObj [(''operation'', JStr ''updateRecordByProperty''),
                 (''table'', JStr ''youtube-limitations''), (''property'', JStr ''id''),
                 (''value'', JNum 1), (''newRecords'', JObj [(''active'', JBool True)])])
          \<lparr>console = [], sent = []\<rparr>) = Inr reply \<and>
        reply \<noteq> JUndefined \<and> reply \<noteq> JNull \<and> \<not> error_flag_set reply"
    by (simp add: answering_resolves error_flag_set_def)
  have bad: "fst (sendMessageToServiceWorker
          (answering (JObj [(''error'', JStr ''quota'')]))
          (JObj [(''operation'', JStr ''updateRecordByProperty''),
                 (''table'', JStr ''youtube-limitations''), (''property'', JStr ''id''),
                 (''value'', JNum 1), (''newRecords'', JObj [(''active'', JBool True)])])
          \<lparr>console = [], sent = []\<rparr>) = Inr (JObj [(''error'', JStr ''quota'')]) \<and>
        error_flag_set (JObj [(''error'', JStr ''quota'')])"
    by (simp add: answering_resolves error_flag_set_def)
  have rej: "isl (fst (sendMessageToServiceWorker
          (unreachable (JObj [(''message'', JStr ''Could not establish connection.'')]))
          (JObj [(''operation'', JStr ''updateRecordByProperty''),
                 (''table'', JStr ''youtube-limitations''), (''property'', JStr ''id''),
                 (''value'', JNum 1), (''newRecords'', JObj [(''active'', JBool True)])])
          \<lparr>console = [], sent = []\<rparr>))"
    by (simp add: unreachable_rejects)
  note good_case = updateRecordByPropertyGlobal_result [OF printable,
      where chrome = "answering (JObj [(''error'', JBool False)])"
      and table = "JStr ''youtube-limitations''" and property = "JStr ''id''"
      and newRecords = "JObj [(''active'', JBool True)]"
      and w = "\<lparr>console = [], sent = []\<rparr>"]
  note bad_case = updateRecordByPropertyGlobal_result [OF printable,
      where chrome = "answering (JObj [(''error'', JStr ''quota'')])"
      and table = "JStr ''youtube-limitations''" and property = "JStr ''id''"
      and newRecords = "JObj [(''active'', JBool True)]"
      and w = "\<lparr>console = [], sent = []\<rparr>" and reply = "JObj [(''error'', JStr ''quota'')]"]
  note down_case = updateRecordByPropertyGlobal_result [OF printable,
      where chrome = "unreachable (JObj [(''message'', JStr ''Could not establish connection.'')])"
      and table = "JStr ''youtube-limitations''" and property = "JStr ''id''"
      and newRecords = "JObj [(''active'', JBool True)]"
      and w = "\<lparr>console = [], sent = []\<rparr>"]
  from good_case ok have 1: "fst (updateRecordByPropertyGlobal
          (answering (JObj [(''error'', JBool False)]))
          (JStr ''youtube-limitations'') (JStr ''id'') (JNum 1) (JObj [(''active'', JBool True)])
          \<lparr>console = [], sent = []\<rparr>) = Inr (JBool True)"
    by blast
  from bad_case bad have 2: "fst (updateRecordByPropertyGlobal
          (answering (JObj [(''error'', JStr ''quota'')]))
          (JStr ''youtube-limitations'') (JStr ''id'') (JNum 1) (JObj [(''active'', JBool True)])
          \<lparr>console = [], sent = []\<rparr>) = Inr (JBool False)"
    by blast
  with bad_case have 3: "length (error_logs (snd (updateRecordByPropertyGlobal
          (answering (JObj [(''error'', JStr ''quota'')]))
          (JStr ''youtube-limitations'') (JStr ''id'') (JNum 1) (JObj [(''active'', JBool True)])
          \<lparr>console = [], sent = []\<rparr>))) = 1"
    unfolding error_logs_empty by simp
  from down_case rej have 4: "fst (updateRecordByPropertyGlobal
          (unreachable (JObj [(''message'', JStr ''Could not establish connection.'')]))
          (JStr ''youtube-limitations'') (JStr ''id'') (JNum 1) (JObj [(''active'', JBool True)])
          \<lparr>console = [], sent = []\<rparr>) = Inr (JBool False)"
    by blast
  from 1 2 3 4 bad rej printable show ?thesis by blast
qed

section \<open>Properties of the watch-time helpers\<close>

lemma string_of_nat_1: "n < 10 \<Longrightarrow> string_of_nat n = [digit_char n]"
  by (simp add: string_of_nat.simps [of n])

lemma string_of_nat_2:
  "10 \<le> n \<Longrightarrow> n < 100 \<Longrightarrow> string_of_nat n = [digit_char (n div 10), digit_char (n mod 10)]"
  by (simp add: string_of_nat.simps [of n] string_of_nat_1)

lemma string_of_nat_3:
  "100 \<le> n \<Longrightarrow> n < 1000 \<Longrightarrow>
     string_of_nat n = [digit_char (n div 100), digit_char (n div 10 mod 10), digit_char (n mod 10)]"
  by (simp add: string_of_nat.simps [of n] string_of_nat_2 div_mult2_eq [symmetric])

lemma string_of_nat_4:
  "1000 \<le> n \<Longrightarrow> n < 10000 \<Longrightarrow>
     string_of_nat n = [digit_char (n div 1000), digit_char (n div 100 mod 10),
                        digit_char (n div 10 mod 10), digit_char (n mod 10)]"
  by (simp add: string_of_nat.simps [of n] string_of_nat_3 div_mult2_eq [symmetric])

lemma digit_char_0: "digit_char 0 = CHR ''0''"
  by (simp add: digit_char_def)

lemma pad_two_digits:
  assumes "0 \<le> k" "k < 100"
  shows "padStart 2 ''0'' (number_to_string k) = two_digits k"
proof (cases "k < 10")
  case True
  with assms have "nat k < 10" "k div 10 = 0" "k mod 10 = k" by simp_all
  then show ?thesis
    using assms by (simp add: padStart_def number_to_string_def string_of_nat_1 two_digits_def
        digit_char_0)
next
  case False
  with assms have "10 \<le> nat k" "nat k < 100" by simp_all
  then show ?thesis
    using assms by (simp add: padStart_def number_to_string_def string_of_nat_2 two_digits_def
        nat_div_distrib nat_mod_distrib)
qed

lemma year_four_digits:
  assumes "1000 \<le> y" "y \<le> 9999"
  shows "number_to_string y = four_digits y"
proof -
  from assms have "1000 \<le> nat y" "nat y < 10000" by simp_all
  then have "string_of_nat (nat y) =
      [digit_char (nat y div 1000), digit_char (nat y div 100 mod 10),
       digit_char (nat y div 10 mod 10), digit_char (nat y mod 10)]"
    by (rule string_of_nat_4)
  then show ?thesis
    using assms by (simp add: number_to_string_def four_digits_def nat_div_distrib nat_mod_distrib)
qed

lemma getCurrentDate_iso:
  assumes "1000 \<le> getFullYear now" "getFullYear now \<le> 9999"
    and "0 \<le> getMonth now" "getMonth now \<le> 11"
    and "1 \<le> getDate now" "getDate now \<le> 31"
  shows "getCurrentDate now = yyyy_MM_dd (getFullYear now) (getMonth now + 1) (getDate now)"
proof -
  have m: "padStart 2 ''0'' (number_to_string (getMonth now + 1)) = two_digits (getMonth now + 1)"
    using assms by (intro pad_two_digits) simp_all
  have d: "padStart 2 ''0'' (number_to_string (getDate now)) = two_digits (getDate now)"
    using assms by (intro pad_two_digits) simp_all
  show ?thesis
    unfolding getCurrentDate_def Let_def m d yyyy_MM_dd_def
    using assms by (simp add: year_four_digits)
qed

text \<open>
  C6. For a local date with a four-digit year, \<^verbatim>\<open>getCurrentWatchTimes\<close> sends exactly
  one message, a \<^verbatim>\<open>filterRecords\<close> request on the table \<^verbatim>\<open>watch-times\<close> whose property
  is \<^verbatim>\<open>date\<close> and whose value is that date as \<^verbatim>\<open>yyyy-MM-dd\<close>, month and day padded with
  a zero; when the bridge resolves, the helper resolves to the returned set unchanged.
\<close>

theorem getCurrentWatchTimes_request:
  "1000 \<le> getFullYear now \<and> getFullYear now \<le> 9999 \<and>
   0 \<le> getMonth now \<and> getMonth now \<le> 11 \<and> 1 \<le> getDate now \<and> getDate now \<le> 31 \<Longrightarrow>
   sent (snd (getCurrentWatchTimes now chrome w)) =
     sent w @ [JObj [(''operation'', JStr ''filterRecords''), (''table'', JStr ''watch-times''),
                     (''property'', JStr ''date''),
                     (''value'', JStr (yyyy_MM_dd (getFullYear now) (getMonth now + 1)
                                        (getDate now)))]] \<and>
   (fst (sendMessageToServiceWorker chrome
          (JObj [(''operation'', JStr ''filterRecords''), (''table'', JStr ''watch-times''),
                 (''property'', JStr ''date''),
                 (''value'', JStr (yyyy_MM_dd (getFullYear now) (getMonth now + 1)
                                    (getDate now)))]) w) = Inr payload \<longrightarrow>
      fst (getCurrentWatchTimes now chrome w) = payload)"
proof -
  assume a: "1000 \<le> getFullYear now \<and> getFullYear now \<le> 9999 \<and>
   0 \<le> getMonth now \<and> getMonth now \<le> 11 \<and> 1 \<le> getDate now \<and> getDate now \<le> 31"
  then have iso: "getCurrentDate now = yyyy_MM_dd (getFullYear now) (getMonth now + 1) (getDate now)"
    by (intro getCurrentDate_iso) simp_all
  show ?thesis
    unfolding iso [symmetric] bridge_resolves_iff
    by (simp add: getCurrentWatchTimes_def bridge_eq)
qed

theorem getCurrentWatchTimes_request_witness:
  "sent (snd (getCurrentWatchTimes \<lparr>getFullYear = 2024, getMonth = 10, getDate = 4\<rparr>
                (answering (JArr [JObj [(''date'', JStr ''2024-11-04'')]]))
                \<lparr>console = [], sent = []\<rparr>)) =
     [JObj [(''operation'', JStr ''filterRecords''), (''table'', JStr ''watch-times''),
            (''property'', JStr ''date''), (''value'', JStr ''2024-11-04'')]] \<and>
   fst (getCurrentWatchTimes \<lparr>getFullYear = 2024, getMonth = 10, getDate = 4\<rparr>
                (answering (JArr [JObj [(''date'', JStr ''2024-11-04'')]]))
                \<lparr>console = [], sent = []\<rparr>) = JArr [JObj [(''date'', JStr ''2024-11-04'')]]"
  using getCurrentWatchTimes_request [of "\<lparr>getFullYear = 2024, getMonth = 10, getDate = 4\<rparr>"
      "answering (JArr [JObj [(''date'', JStr ''2024-11-04'')]])"
      "\<lparr>console = [], sent = []\<rparr>" "JArr [JObj [(''date'', JStr ''2024-11-04'')]]"]
  by (simp add: yyyy_MM_dd_def four_digits_def two_digits_def digit_char_def answering_resolves)

lemma js_add_numbers: "js_add (JNum a) (JNum b) = Inr (JNum (a + b))"
  by (simp add: js_add_def)

lemma total_watch_time_numeric:
  "get_prop r (Name ''total-watch-time'') = Inr (JNum t) \<Longrightarrow> total_watch_time r = t"
  by (simp add: total_watch_time_def)

lemma getTotalWatchTime_loop_numeric:
  assumes "\<forall>r\<in>set records. \<exists>t. get_prop r (Name ''total-watch-time'') = Inr (JNum t)"
    and "\<forall>i\<in>set indices. i < length records"
  shows "getTotalWatchTime_loop (JArr records) (map Idx indices) (JNum acc) =
           Inr (JNum (acc + sum_list (map (\<lambda>i. total_watch_time (records ! i)) indices)))"
  using assms(2)
proof (induction indices arbitrary: acc)
  case Nil
  show ?case by simp
next
  case (Cons i rest)
  then have i: "i < length records" by simp
  then have "records ! i \<in> set records" by simp
  with assms(1) obtain t where t: "get_prop (records ! i) (Name ''total-watch-time'') = Inr (JNum t)"
    by blast
  then have tw: "total_watch_time (records ! i) = t" by (rule total_watch_time_numeric)
  have "getTotalWatchTime_loop (JArr records) (map Idx (i # rest)) (JNum acc) =
          getTotalWatchTime_loop (JArr records) (map Idx rest) (JNum (acc + t))"
    using i t by (simp add: js_add_numbers)
  also have "\<dots> = Inr (JNum (acc + t + sum_list (map (\<lambda>i. total_watch_time (records ! i)) rest)))"
    using Cons by simp
  finally show ?case by (simp add: tw)
qed

lemma getTotalWatchTime_array:
  assumes "\<forall>r\<in>set records. \<exists>t. get_prop r (Name ''total-watch-time'') = Inr (JNum t)"
  shows "getTotalWatchTime_loop (JArr records) (for_in_keys (JArr records)) (JNum 0) =
           Inr (JNum (sum_list (map total_watch_time records)))"
proof -
  have "map (\<lambda>i. total_watch_time (records ! i)) [0..<length records] =
          map total_watch_time (map (\<lambda>i. records ! i) [0..<length records])"
    by simp
  also have "\<dots> = map total_watch_time records" by (simp only: map_nth)
  finally have m: "map (\<lambda>i. total_watch_time (records ! i)) [0..<length records] =
          map total_watch_time records" .
  have "getTotalWatchTime_loop (JArr records) (map Idx [0..<length records]) (JNum 0) =
          Inr (JNum (0 + sum_list (map (\<lambda>i. total_watch_time (records ! i)) [0..<length records])))"
    using assms by (intro getTotalWatchTime_loop_numeric) simp_all
  then show ?thesis by (simp add: m)
qed

text \<open>
  C4. \<^verbatim>\<open>getTotalWatchTime\<close> sends one \<^verbatim>\<open>selectAllRecords\<close> request for the table
  \<^verbatim>\<open>watch-times\<close>. When the reply is an array of records whose \<^verbatim>\<open>total-watch-time\<close>
  fields are safe integers, and every running total of them is one, it resolves to
  their sum, counted from 0; for the two records with 10 and 20 it resolves to 30.
  When the bridge rejects it logs one error and resolves to \<^verbatim>\<open>undefined\<close>, not to
  \<^verbatim>\<open>false\<close>.
\<close>

theorem getTotalWatchTime_sum:
  "sent (snd (getTotalWatchTime chrome w)) =
     sent w @ [JObj [(''operation'', JStr ''selectAllRecords''), (''table'', JStr ''watch-times'')]] \<and>
   (fst (sendMessageToServiceWorker chrome
          (JObj [(''operation'', JStr ''selectAllRecords''), (''table'', JStr ''watch-times'')]) w)
      = Inr (JArr records) \<and>
    (\<forall>r\<in>set records. \<exists>t. get_prop r (Name ''total-watch-time'') = Inr (JNum t) \<and>
                              isSafeInteger t) \<and>
    (\<forall>k\<le>length records.
        isSafeInteger (sum_list (map total_watch_time (take k records)))) \<longrightarrow>
    fst (getTotalWatchTime chrome w) = JNum (0 + sum_list (map total_watch_time records))) \<and>
   fst (getTotalWatchTime
          (answering (JArr [JObj [(''total-watch-time'', JNum 10)],
                            JObj [(''total-watch-time'', JNum 20)]])) w) = JNum 30 \<and>
   (isl (fst (sendMessageToServiceWorker chrome
          (JObj [(''operation'', JStr ''selectAllRecords''), (''table'', JStr ''watch-times'')]) w))
      \<longrightarrow>
    fst (getTotalWatchTime chrome w) = JUndefined \<and>
    fst (getTotalWatchTime chrome w) \<noteq> JBool False \<and>
    length (error_logs (snd (getTotalWatchTime chrome w))) = length (error_logs w) + 1)"
proof -
  let ?m = "JObj [(''operation'', JStr ''selectAllRecords''), (''table'', JStr ''watch-times'')]"
  have a: "sent (snd (getTotalWatchTime chrome w)) = sent w @ [?m]"
    by (simp add: getTotalWatchTime_def bridge_eq Let_def split: sum.splits)
  have b: "fst (sendMessageToServiceWorker chrome ?m w) = Inr (JArr records) \<and>
      (\<forall>r\<in>set records. \<exists>t. get_prop r (Name ''total-watch-time'') = Inr (JNum t) \<and>
                                isSafeInteger t) \<and>
      (\<forall>k\<le>length records.
          isSafeInteger (sum_list (map total_watch_time (take k records)))) \<longrightarrow>
      fst (getTotalWatchTime chrome w) = JNum (0 + sum_list (map total_watch_time records))"
  proof
    assume h: "fst (sendMessageToServiceWorker chrome ?m w) = Inr (JArr records) \<and>
      (\<forall>r\<in>set records. \<exists>t. get_prop r (Name ''total-watch-time'') = Inr (JNum t) \<and>
                                isSafeInteger t) \<and>
      (\<forall>k\<le>length records.
          isSafeInteger (sum_list (map total_watch_time (take k records))))"
    then have "\<forall>r\<in>set records. \<exists>t. get_prop r (Name ''total-watch-time'') = Inr (JNum t)"
      by blast
    then have loop: "getTotalWatchTime_loop (JArr records) (for_in_keys (JArr records)) (JNum 0) =
           Inr (JNum (sum_list (map total_watch_time records)))"
      by (rule getTotalWatchTime_array)
    from h have "\<not> truthy (lastError (chrome ?m))" "response (chrome ?m) = JArr records"
      by (simp_all add: bridge_resolves_iff)
    then show "fst (getTotalWatchTime chrome w) = JNum (0 + sum_list (map total_watch_time records))"
      using loop by (simp add: getTotalWatchTime_def bridge_eq Let_def del: for_in_keys.simps)
  qed
  have c: "fst (getTotalWatchTime
          (answering (JArr [JObj [(''total-watch-time'', JNum 10)],
                            JObj [(''total-watch-time'', JNum 20)]])) w) = JNum 30"
    by (simp add: getTotalWatchTime_def bridge_eq Let_def answering_def js_add_numbers upt_rec)
  have d: "isl (fst (sendMessageToServiceWorker chrome ?m w)) \<longrightarrow>
      fst (getTotalWatchTime chrome w) = JUndefined \<and>
      fst (getTotalWatchTime chrome w) \<noteq> JBool False \<and>
      length (error_logs (snd (getTotalWatchTime chrome w))) = length (error_logs w) + 1"
    unfolding bridge_rejects_iff by (simp add: getTotalWatchTime_def bridge_eq Let_def)
  from a b c d show ?thesis by blast
qed

theorem getTotalWatchTime_sum_witness:
  "fst (sendMessageToServiceWorker
          (answering (JArr [JObj [(''id'', JNum 1), (''date'', JStr ''2024-11-04''),
                                  (''total-watch-time'', JNum 6042)],
                            JObj [(''id'', JNum 2), (''date'', JStr ''2024-11-05''),
                                  (''total-watch-time'', JNum 58)]]))
          (JObj [(''operation'', JStr ''selectAllRecords''), (''table'', JStr ''watch-times'')])
          \<lparr>console = [], sent = []\<rparr>)
     = Inr (JArr [JObj [(''id'', JNum 1), (''date'', JStr ''2024-11-04''),
                        (''total-watch-time'', JNum 6042)],
                  JObj [(''id'', JNum 2), (''date'', JStr ''2024-11-05''),
                        (''total-watch-time'', JNum 58)]]) \<and>
   get_prop (JObj [(''id'', JNum 1), (''date'', JStr ''2024-11-04''),
                   (''total-watch-time'', JNum 6042)]) (Name ''total-watch-time'')
     = Inr (JNum 6042) \<and>
   get_prop (JObj [(''id'', JNum 2), (''date'', JStr ''2024-11-05''),
                   (''total-watch-time'', JNum 58)]) (Name ''total-watch-time'')
     = Inr (JNum 58) \<and>
   isSafeInteger 0 \<and> isSafeInteger 6042 \<and> isSafeInteger 58 \<and> isSafeInteger (6042 + 58) \<and>
   fst (getTotalWatchTime
          (answering (JArr [JObj [(''id'', JNum 1), (''date'', JStr ''2024-11-04''),
                                  (''total-watch-time'', JNum 6042)],
                            JObj [(''id'', JNum 2), (''date'', JStr ''2024-11-05''),
                                  (''total-watch-time'', JNum 58)]]))
          \<lparr>console = [], sent = []\<rparr>) = JNum 6100 \<and>
   isl (fst (sendMessageToServiceWorker
          (unreachable (JObj [(''message'', JStr ''Could not establish connection.'')]))
          (JObj [(''operation'', JStr ''selectAllRecords''), (''table'', JStr ''watch-times'')])
          \<lparr>console = [], sent = []\<rparr>)) \<and>
   fst (getTotalWatchTime
          (unreachable (JObj [(''message'', JStr ''Could not establish connection.'')]))
          \<lparr>console = [], sent = []\<rparr>) = JUndefined"
proof -
  let ?r1 = "JObj [(''id'', JNum 1), (''date'', JStr ''2024-11-04''),
                   (''total-watch-time'', JNum 6042)]"
  let ?r2 = "JObj [(''id'', JNum 2), (''date'', JStr ''2024-11-05''),
                   (''total-watch-time'', JNum 58)]"
  have safe: "isSafeInteger 0" "isSafeInteger 6042" "isSafeInteger 58"
    "isSafeInteger (6042 + 58)"
    by (simp_all add: isSafeInteger_def MAX_SAFE_INTEGER_def)
  have fields: "\<forall>r\<in>set [?r1, ?r2].
      \<exists>t. get_prop r (Name ''total-watch-time'') = Inr (JNum t) \<and> isSafeInteger t"
    using safe by simp
  have totals: "\<forall>k\<le>length [?r1, ?r2].
      isSafeInteger (sum_list (map total_watch_time (take k [?r1, ?r2])))"
  proof (intro allI impI)
    fix k :: nat
    assume "k \<le> length [?r1, ?r2]"
    then have "k = 0 \<or> k = 1 \<or> k = 2" by auto
    then show "isSafeInteger (sum_list (map total_watch_time (take k [?r1, ?r2])))"
      using safe by (auto simp: total_watch_time_def)
  qed
  have rej: "\<And>m. isl (fst (sendMessageToServiceWorker
       (unreachable (JObj [(''message'', JStr ''Could not establish connection.'')])) m
       \<lparr>console = [], sent = []\<rparr>))"
    by (simp add: unreachable_rejects)
  note up_case = getTotalWatchTime_sum [where w = "\<lparr>console = [], sent = []\<rparr>"
      and chrome = "answering (JArr [?r1, ?r2])" and records = "[?r1, ?r2]"]
  note down_case = getTotalWatchTime_sum [where w = "\<lparr>console = [], sent = []\<rparr>"
      and chrome = "unreachable (JObj [(''message'', JStr ''Could not establish connection.'')])"]
  from up_case fields totals have 1: "fst (getTotalWatchTime (answering (JArr [?r1, ?r2]))
       \<lparr>console = [], sent = []\<rparr>) = JNum 6100"
    by (simp add: answering_resolves total_watch_time_def)
  from down_case rej have 2: "fst (getTotalWatchTime
          (unreachable (JObj [(''message'', JStr ''Could not establish connection.'')]))
          \<lparr>console = [], sent = []\<rparr>) = JUndefined"
    by blast
  from 1 2 safe rej show ?thesis by (simp add: answering_resolves)
qed

section \<open>Properties of the watch-mode lookup\<close>

text \<open>
  C5. \<^verbatim>\<open>getCurrentWatchMode\<close> sends one \<^verbatim>\<open>filterRecords\<close> request on the table
  \<^verbatim>\<open>watch-modes\<close> for the property \<^verbatim>\<open>active\<close> and the value \<^verbatim>\<open>true\<close>, and resolves to
  the first element of the returned array; for an empty array that is \<^verbatim>\<open>undefined\<close>,
  which differs from the \<^verbatim>\<open>false\<close> it resolves to when the bridge rejects.
\<close>

theorem getCurrentWatchMode_first_match:
  "sent (snd (getCurrentWatchMode chrome w)) =
     sent w @ [JObj [(''operation'', JStr ''filterRecords''), (''table'', JStr ''watch-modes''),
                     (''property'', JStr ''active''), (''value'', JBool True)]] \<and>
   (fst (sendMessageToServiceWorker chrome
          (JObj [(''operation'', JStr ''filterRecords''), (''table'', JStr ''watch-modes''),
                 (''property'', JStr ''active''), (''value'', JBool True)]) w)
      = Inr (JArr matches) \<longrightarrow>
    fst (getCurrentWatchMode chrome w) =
      (case matches of [] \<Rightarrow> JUndefined | first # others \<Rightarrow> first)) \<and>
   (isl (fst (sendMessageToServiceWorker chrome
          (JObj [(''operation'', JStr ''filterRecords''), (''table'', JStr ''watch-modes''),
                 (''property'', JStr ''active''), (''value'', JBool True)]) w)) \<longrightarrow>
    fst (getCurrentWatchMode chrome w) = JBool False) \<and>
   JUndefined \<noteq> JBool False"
proof -
  let ?m = "JObj [(''operation'', JStr ''filterRecords''), (''table'', JStr ''watch-modes''),
                  (''property'', JStr ''active''), (''value'', JBool True)]"
  have a: "sent (snd (getCurrentWatchMode chrome w)) = sent w @ [?m]"
    by (simp add: getCurrentWatchMode_def bridge_eq split: sum.splits)
  have b: "fst (sendMessageToServiceWorker chrome ?m w) = Inr (JArr matches) \<longrightarrow>
      fst (getCurrentWatchMode chrome w) =
        (case matches of [] \<Rightarrow> JUndefined | first # others \<Rightarrow> first)"
    unfolding bridge_resolves_iff
    by (simp add: getCurrentWatchMode_def bridge_eq split: list.splits)
  have c: "isl (fst (sendMessageToServiceWorker chrome ?m w)) \<longrightarrow>
      fst (getCurrentWatchMode chrome w) = JBool False"
    unfolding bridge_rejects_iff by (simp add: getCurrentWatchMode_def bridge_eq)
  from a b c show ?thesis by simp
qed

theorem getCurrentWatchMode_first_match_witness:
  "fst (sendMessageToServiceWorker (answering (JArr []))
          (JObj [(''operation'', JStr ''filterRecords''), (''table'', JStr ''watch-modes''),
                 (''property'', JStr ''active''), (''value'', JBool True)])
          \<lparr>console = [], sent = []\<rparr>) = Inr (JArr []) \<and>
   fst (getCurrentWatchMode (answering (JArr [])) \<lparr>console = [], sent = []\<rparr>) = JUndefined \<and>
   fst (getCurrentWatchMode
          (answering (JArr [JObj [(''name'', JStr ''Recreational''), (''active'', JBool True)],
                            JObj [(''name'', JStr ''Educational''), (''active'', JBool True)]]))
          \<lparr>console = [], sent = []\<rparr>)
     = JObj [(''name'', JStr ''Recreational''), (''active'', JBool True)] \<and>
   isl (fst (sendMessageToServiceWorker
          (unreachable (JObj [(''message'', JStr ''Could not establish connection.'')]))
          (JObj [(''operation'', JStr ''filterRecords''), (''table'', JStr ''watch-modes''),
                 (''property'', JStr ''active''), (''value'', JBool True)])
          \<lparr>console = [], sent = []\<rparr>)) \<and>
   fst (getCurrentWatchMode
          (unreachable (JObj [(''message'', JStr ''Could not establish connection.'')]))
          \<lparr>console = [], sent = []\<rparr>) = JBool False"
proof -
  have rej: "\<And>m. isl (fst (sendMessageToServiceWorker
       (unreachable (JObj [(''message'', JStr ''Could not establish connection.'')])) m
       \<lparr>console = [], sent = []\<rparr>))"
    by (simp add: unreachable_rejects)
  note none = getCurrentWatchMode_first_match [where w = "\<lparr>console = [], sent = []\<rparr>"
      and chrome = "answering (JArr [])" and matches = "[]"]
  note two = getCurrentWatchMode_first_match [where w = "\<lparr>console = [], sent = []\<rparr>"
      and chrome = "answering (JArr [JObj [(''name'', JStr ''Recreational''), (''active'', JBool True)],
                            JObj [(''name'', JStr ''Educational''), (''active'', JBool True)]])"
      and matches = "[JObj [(''name'', JStr ''Recreational''), (''active'', JBool True)],
                            JObj [(''name'', JStr ''Educational''), (''active'', JBool True)]]"]
  note down = getCurrentWatchMode_first_match [where w = "\<lparr>console = [], sent = []\<rparr>"
      and chrome = "unreachable (JObj [(''message'', JStr ''Could not establish connection.'')])"]
  show ?thesis
    using none two down by (simp add: rej answering_resolves)
qed

section \<open>Properties of the requests\<close>

lemma helper_requests_use_documented_fields:
  "set (message_keys (last (sent (snd (filterRecordsGlobal chrome table property value' w)))))
     \<subseteq> set documented_fields"
  "set (message_keys (last (sent (snd (resetTableGlobal chrome table w)))))
     \<subseteq> set documented_fields"
  "set (message_keys (last (sent (snd (selectAllRecordsGlobal chrome table w)))))
     \<subseteq> set documented_fields"
  "set (message_keys (last (sent (snd (selectRecordByIdGlobal chrome table id' w)))))
     \<subseteq> set documented_fields"
  "set (message_keys (last (sent (snd (updateRecordByPropertyGlobal chrome table property value'
                                         newRecords w)))))
     \<subseteq> set documented_fields"
  "set (message_keys (last (sent (snd (insertRecordsGlobal chrome table newRecords w)))))
     \<subseteq> set documented_fields"
  by (simp_all add: filterRecordsGlobal_def resetTableGlobal_def selectAllRecordsGlobal_def
      selectRecordByIdGlobal_def updateRecordByPropertyGlobal_sent insertRecordsGlobal_def
      bridge_eq Let_def documented_fields_def split: sum.splits)

text \<open>
  C9 on the code: the request of \<^verbatim>\<open>deleteRecordByIdGlobal\<close> carries the identifier
  under the key \<^verbatim>\<open>id\<close>, which is not a documented field, and has no \<^verbatim>\<open>index\<close> field;
  \<^verbatim>\<open>selectRecordByIdGlobal\<close> carries the same identifier under \<^verbatim>\<open>index\<close>.
\<close>

theorem deleteRecordByIdGlobal_request_key:
  "sent (snd (deleteRecordByIdGlobal chrome (JStr ''watch-times'') (JNum 1)
                \<lparr>console = [], sent = []\<rparr>)) =
     [JObj [(''operation'', JStr ''deleteRecordById''), (''table'', JStr ''watch-times''),
            (''id'', JNum 1)]] \<and>
   \<not> set (message_keys (last (sent (snd (deleteRecordByIdGlobal chrome (JStr ''watch-times'')
                                           (JNum 1) \<lparr>console = [], sent = []\<rparr>)))))
       \<subseteq> set documented_fields \<and>
   get_prop (last (sent (snd (deleteRecordByIdGlobal chrome (JStr ''watch-times'') (JNum 1)
                                \<lparr>console = [], sent = []\<rparr>)))) (Name ''index'')
     = Inr JUndefined \<and>
   get_prop (last (sent (snd (selectRecordByIdGlobal chrome (JStr ''watch-times'') (JNum 1)
                                \<lparr>console = [], sent = []\<rparr>)))) (Name ''index'')
     = Inr (JNum 1)"
  by (simp add: deleteRecordByIdGlobal_def selectRecordByIdGlobal_def bridge_eq Let_def
      documented_fields_def split: sum.splits)

section \<open>Properties of the redirect\<close>

text \<open>
  C10. Whatever arguments \<^verbatim>\<open>redirectUser\<close> is called with, it behaves as when called
  with none, and the one message it sends is \<^verbatim>\<open>{redirect: "/html/dashboard.html"}\<close>.
\<close>

theorem redirectUser_fixed_message:
  "redirectUser args chrome w = redirectUser [] chrome w \<and>
   sent (snd (redirectUser args chrome w)) =
     sent w @ [JObj [(''redirect'', JStr ''/html/dashboard.html'')]]"
  by (simp add: redirectUser_def Let_def split: sum.splits)

end
